theory Spec2Isabelle
  imports Complex_Main "HOL-Library.AList" "HOL-Library.Multiset"
begin

section \<open>Bank analytics platform: consent store and aggregation engine (api.py)\<close>

text \<open>
  The theory embeds the consent and aggregation logic of \<^verbatim>\<open>api.py\<close>:
  \<^verbatim>\<open>manage_consent\<close>, \<^verbatim>\<open>revoke_consent\<close>, \<^verbatim>\<open>get_aggregated_data\<close> and
  \<^verbatim>\<open>generate_aggregated_data\<close>, with the module's tables.

  Conventions of the embedding.
  \<^item> A Python \<^verbatim>\<open>str\<close> is a \<open>string\<close> holding its UTF-8 bytes; the Cyrillic literals of
    the source are written byte by byte. UTF-8 is injective and never produces the byte
    of \<^verbatim>\<open>_\<close> inside a multi-byte character, so equality and concatenation of strings are
    those of the source.
  \<^item> A Python \<^verbatim>\<open>dict\<close> is an association list in insertion order with distinct keys:
    \<^verbatim>\<open>d[k] = v\<close> is \<open>AList.update\<close> (in place for a present key, appended for a new
    one), \<^verbatim>\<open>del d[k]\<close> is \<open>AList.delete\<close>, \<^verbatim>\<open>k in d\<close> is \<open>map_of d k \<noteq> None\<close>.
  \<^item> A Python \<^verbatim>\<open>float\<close> amount is an exact rational: \<open>+\<close> and \<open>/\<close> are the exact
    operations, the rounding of binary floating point is not modelled.
  \<^item> The three global tables are explicit: the profile table is a parameter of the
    operations (the built-in one is \<open>client_profiles_db\<close>), the two mutable tables form
    the state, which every mutating operation returns next to its outcome.
  \<^item> Every \<^verbatim>\<open>datetime.now().isoformat()\<close> that reaches the state is an input of the
    operation (a triple, one string per stored dataset).
  \<^item> A raised exception is an \<open>Inl\<close> outcome.
\<close>

subsection \<open>Data model\<close>

record Transaction =
  id_tx :: string
  amount :: rat
  category :: string
  date :: string
  merchant :: string

record ClientProfile =
  client_id :: string
  client_name :: string
  age_group :: string
  city :: string
  total_balance :: rat
  transactions :: "Transaction list"

text \<open>The fields \<^verbatim>\<open>client_id\<close> and \<^verbatim>\<open>company\<close> of \<^verbatim>\<open>ConsentRequest\<close> carry the prefix
  \<open>req\<close>, since \<^verbatim>\<open>ClientProfile\<close> and \<^verbatim>\<open>AggregatedData\<close> have fields of the same name.\<close>

record ConsentRequest =
  req_client_id :: string
  req_company :: string
  data_types :: "string list"
  is_active :: bool

text \<open>The \<^verbatim>\<open>metrics\<close> dictionary has one of three shapes, one per kind of dataset; the
  selectors are the dictionary's keys with the prefix \<open>m\<close>.\<close>

datatype Metrics =
    CategoryMetrics
      (m_spending_by_category: "(string \<times> rat) list")
      (m_top_category: string)
      (m_total_categories: nat)
      (m_total_spent: rat)
  | AverageMetrics
      (m_average_transaction_amount: rat)
      (m_min_amount: rat)
      (m_max_amount: rat)
      (m_total_transactions: nat)
      (m_total_amount: rat)
  | DemographicMetrics
      (m_age_group: string)
      (m_city: string)
      (m_average_balance: rat)
      (m_client_count: int)

record AggregatedData =
  company :: string
  data_type :: string
  metrics :: Metrics
  sample_size :: int
  generated_at :: string

text \<open>\<^verbatim>\<open>HTTPException(status_code, detail)\<close>, and the two built-in exceptions that the
  arithmetic of the aggregation could raise.\<close>

datatype error = HTTPException (status_code: nat) (detail: string) | ZeroDivisionError | ValueError

record db_state =
  consents_db :: "(string \<times> ConsentRequest) list"
  aggregated_data_db :: "(string \<times> AggregatedData) list"

definition empty_state :: db_state where
  "empty_state = \<lparr>consents_db = [], aggregated_data_db = []\<rparr>"

subsection \<open>The module's tables\<close>

definition client_profiles_db :: "(string \<times> ClientProfile) list" where
  "client_profiles_db =
    [(''client_1'',
      \<lparr>client_id = ''client_1'',
       client_name = ([CHR 0xD0, CHR 0x98, CHR 0xD0, CHR 0xB2, CHR 0xD0, CHR 0xB0, CHR 0xD0,
           CHR 0xBD] @ '' '' @ [CHR 0xD0, CHR 0x9F, CHR 0xD0, CHR 0xB5, CHR 0xD1, CHR 0x82,
           CHR 0xD1, CHR 0x80, CHR 0xD0, CHR 0xBE, CHR 0xD0, CHR 0xB2]),
       age_group = ''25-35'',
       city = [CHR 0xD0, CHR 0x9C, CHR 0xD0, CHR 0xBE, CHR 0xD1, CHR 0x81, CHR 0xD0,
           CHR 0xBA, CHR 0xD0, CHR 0xB2, CHR 0xD0, CHR 0xB0],
       total_balance = 150000,
       transactions =
        [\<lparr>id_tx = ''t1'', amount = 2500, category = [CHR 0xD0, CHR 0xA0, CHR 0xD0,
            CHR 0xB5, CHR 0xD1, CHR 0x81, CHR 0xD1, CHR 0x82, CHR 0xD0, CHR 0xBE, CHR 0xD1,
            CHR 0x80, CHR 0xD0, CHR 0xB0, CHR 0xD0, CHR 0xBD, CHR 0xD1, CHR 0x8B],
          date = ''2024-01-15'', merchant = ([CHR 0xD0, CHR 0xA0, CHR 0xD0, CHR 0xB5,
              CHR 0xD1, CHR 0x81, CHR 0xD1, CHR 0x82, CHR 0xD0, CHR 0xBE, CHR 0xD1,
              CHR 0x80, CHR 0xD0, CHR 0xB0, CHR 0xD0, CHR 0xBD] @ '' '' @ [CHR 0x27,
              CHR 0xD0, CHR 0x92, CHR 0xD0, CHR 0xBA, CHR 0xD1, CHR 0x83, CHR 0xD1,
              CHR 0x81, CHR 0xD0, CHR 0xBD, CHR 0xD0, CHR 0xBE, CHR 0x27])\<rparr>,
         \<lparr>id_tx = ''t2'', amount = 5000, category = [CHR 0xD0, CHR 0xA1, CHR 0xD1,
             CHR 0x83, CHR 0xD0, CHR 0xBF, CHR 0xD0, CHR 0xB5, CHR 0xD1, CHR 0x80, CHR 0xD0,
             CHR 0xBC, CHR 0xD0, CHR 0xB0, CHR 0xD1, CHR 0x80, CHR 0xD0, CHR 0xBA, CHR 0xD0,
             CHR 0xB5, CHR 0xD1, CHR 0x82, CHR 0xD1, CHR 0x8B],
          date = ''2024-01-14'', merchant = [CHR 0xD0, CHR 0x9F, CHR 0xD1, CHR 0x8F,
              CHR 0xD1, CHR 0x82, CHR 0xD0, CHR 0xB5, CHR 0xD1, CHR 0x80, CHR 0xD0,
              CHR 0xBE, CHR 0xD1, CHR 0x87, CHR 0xD0, CHR 0xBA, CHR 0xD0, CHR 0xB0]\<rparr>,
         \<lparr>id_tx = ''t3'', amount = 12000, category = [CHR 0xD0, CHR 0xAD, CHR 0xD0,
             CHR 0xBB, CHR 0xD0, CHR 0xB5, CHR 0xD0, CHR 0xBA, CHR 0xD1, CHR 0x82, CHR 0xD1,
             CHR 0x80, CHR 0xD0, CHR 0xBE, CHR 0xD0, CHR 0xBD, CHR 0xD0, CHR 0xB8, CHR 0xD0,
             CHR 0xBA, CHR 0xD0, CHR 0xB0],
          date = ''2024-01-10'', merchant = ([CHR 0xD0, CHR 0x9C] @ ''.'' @ [CHR 0xD0,
              CHR 0x92, CHR 0xD0, CHR 0xB8, CHR 0xD0, CHR 0xB4, CHR 0xD0, CHR 0xB5,
              CHR 0xD0, CHR 0xBE])\<rparr>,
         \<lparr>id_tx = ''t4'', amount = 3500, category = [CHR 0xD0, CHR 0xA2, CHR 0xD1,
             CHR 0x80, CHR 0xD0, CHR 0xB0, CHR 0xD0, CHR 0xBD, CHR 0xD1, CHR 0x81, CHR 0xD0,
             CHR 0xBF, CHR 0xD0, CHR 0xBE, CHR 0xD1, CHR 0x80, CHR 0xD1, CHR 0x82],
          date = ''2024-01-08'', merchant = ([CHR 0xD0, CHR 0xAF, CHR 0xD0, CHR 0xBD,
              CHR 0xD0, CHR 0xB4, CHR 0xD0, CHR 0xB5, CHR 0xD0, CHR 0xBA, CHR 0xD1,
              CHR 0x81] @ ''.'' @ [CHR 0xD0, CHR 0xA2, CHR 0xD0, CHR 0xB0, CHR 0xD0,
              CHR 0xBA, CHR 0xD1, CHR 0x81, CHR 0xD0, CHR 0xB8])\<rparr>,
         \<lparr>id_tx = ''t5'', amount = 8000, category = [CHR 0xD0, CHR 0xA0, CHR 0xD0,
             CHR 0xB0, CHR 0xD0, CHR 0xB7, CHR 0xD0, CHR 0xB2, CHR 0xD0, CHR 0xBB, CHR 0xD0,
             CHR 0xB5, CHR 0xD1, CHR 0x87, CHR 0xD0, CHR 0xB5, CHR 0xD0, CHR 0xBD, CHR 0xD0,
             CHR 0xB8, CHR 0xD1, CHR 0x8F],
          date = ''2024-01-05'', merchant = [CHR 0xD0, CHR 0x9A, CHR 0xD0, CHR 0xB8,
              CHR 0xD0, CHR 0xBD, CHR 0xD0, CHR 0xBE, CHR 0xD1, CHR 0x82, CHR 0xD0,
              CHR 0xB5, CHR 0xD0, CHR 0xB0, CHR 0xD1, CHR 0x82, CHR 0xD1,
              CHR 0x80]\<rparr>]\<rparr>),
     (''client_2'',
      \<lparr>client_id = ''client_2'',
       client_name = ([CHR 0xD0, CHR 0x9C, CHR 0xD0, CHR 0xB0, CHR 0xD1, CHR 0x80, CHR 0xD0,
           CHR 0xB8, CHR 0xD1, CHR 0x8F] @ '' '' @ [CHR 0xD0, CHR 0xA1, CHR 0xD0, CHR 0xB8,
           CHR 0xD0, CHR 0xB4, CHR 0xD0, CHR 0xBE, CHR 0xD1, CHR 0x80, CHR 0xD0, CHR 0xBE,
           CHR 0xD0, CHR 0xB2, CHR 0xD0, CHR 0xB0]),
       age_group = ''35-45'',
       city = ([CHR 0xD0, CHR 0xA1, CHR 0xD0, CHR 0xB0, CHR 0xD0, CHR 0xBD, CHR 0xD0,
           CHR 0xBA, CHR 0xD1, CHR 0x82] @ ''-'' @ [CHR 0xD0, CHR 0x9F, CHR 0xD0, CHR 0xB5,
           CHR 0xD1, CHR 0x82, CHR 0xD0, CHR 0xB5, CHR 0xD1, CHR 0x80, CHR 0xD0, CHR 0xB1,
           CHR 0xD1, CHR 0x83, CHR 0xD1, CHR 0x80, CHR 0xD0, CHR 0xB3]),
       total_balance = 280000,
       transactions =
        [\<lparr>id_tx = ''t6'', amount = 15000, category = [CHR 0xD0, CHR 0x9E, CHR 0xD0,
            CHR 0xB4, CHR 0xD0, CHR 0xB5, CHR 0xD0, CHR 0xB6, CHR 0xD0, CHR 0xB4, CHR 0xD0,
            CHR 0xB0],
          date = ''2024-01-16'', merchant = ''ZARA''\<rparr>,
         \<lparr>id_tx = ''t7'', amount = 7000, category = [CHR 0xD0, CHR 0x9A, CHR 0xD1,
             CHR 0x80, CHR 0xD0, CHR 0xB0, CHR 0xD1, CHR 0x81, CHR 0xD0, CHR 0xBE, CHR 0xD1,
             CHR 0x82, CHR 0xD0, CHR 0xB0],
          date = ''2024-01-15'', merchant = [CHR 0xD0, CHR 0x9B, CHR 0x27, CHR 0xD0,
              CHR 0xAD, CHR 0xD1, CHR 0x82, CHR 0xD1, CHR 0x83, CHR 0xD0, CHR 0xB0,
              CHR 0xD0, CHR 0xBB, CHR 0xD1, CHR 0x8C]\<rparr>,
         \<lparr>id_tx = ''t8'', amount = 4500, category = [CHR 0xD0, CHR 0x9A, CHR 0xD0,
             CHR 0xB0, CHR 0xD1, CHR 0x84, CHR 0xD0, CHR 0xB5],
          date = ''2024-01-12'', merchant = ''Starbucks''\<rparr>,
         \<lparr>id_tx = ''t9'', amount = 20000, category = [CHR 0xD0, CHR 0x9F, CHR 0xD1,
             CHR 0x83, CHR 0xD1, CHR 0x82, CHR 0xD0, CHR 0xB5, CHR 0xD1, CHR 0x88, CHR 0xD0,
             CHR 0xB5, CHR 0xD1, CHR 0x81, CHR 0xD1, CHR 0x82, CHR 0xD0, CHR 0xB2, CHR 0xD0,
             CHR 0xB8, CHR 0xD1, CHR 0x8F],
          date = ''2024-01-05'', merchant = ''Aeroflot''\<rparr>,
         \<lparr>id_tx = ''t10'', amount = 3000, category = [CHR 0xD0, CHR 0xA4, CHR 0xD0,
             CHR 0xB8, CHR 0xD1, CHR 0x82, CHR 0xD0, CHR 0xBD, CHR 0xD0, CHR 0xB5, CHR 0xD1,
             CHR 0x81],
          date = ''2024-01-03'', merchant = ''World Class''\<rparr>]\<rparr>),
     (''client_3'',
      \<lparr>client_id = ''client_3'',
       client_name = ([CHR 0xD0, CHR 0x90, CHR 0xD0, CHR 0xBB, CHR 0xD0, CHR 0xB5, CHR 0xD0,
           CHR 0xBA, CHR 0xD1, CHR 0x81, CHR 0xD0, CHR 0xB5, CHR 0xD0,
           CHR 0xB9] @ '' '' @ [CHR 0xD0, CHR 0x9A, CHR 0xD0, CHR 0xBE, CHR 0xD0, CHR 0xB7,
           CHR 0xD0, CHR 0xBB, CHR 0xD0, CHR 0xBE, CHR 0xD0, CHR 0xB2]),
       age_group = ''18-25'',
       city = [CHR 0xD0, CHR 0x9D, CHR 0xD0, CHR 0xBE, CHR 0xD0, CHR 0xB2, CHR 0xD0,
           CHR 0xBE, CHR 0xD1, CHR 0x81, CHR 0xD0, CHR 0xB8, CHR 0xD0, CHR 0xB1, CHR 0xD0,
           CHR 0xB8, CHR 0xD1, CHR 0x80, CHR 0xD1, CHR 0x81, CHR 0xD0, CHR 0xBA],
       total_balance = 50000,
       transactions =
        [\<lparr>id_tx = ''t11'', amount = 1500, category = [CHR 0xD0, CHR 0xA4, CHR 0xD0,
            CHR 0xB0, CHR 0xD1, CHR 0x81, CHR 0xD1, CHR 0x82, CHR 0xD1, CHR 0x84, CHR 0xD1,
            CHR 0x83, CHR 0xD0, CHR 0xB4],
          date = ''2024-01-17'', merchant = (''McDonald'' @ [CHR 0x27] @ ''s'')\<rparr>,
         \<lparr>id_tx = ''t12'', amount = 8000, category = [CHR 0xD0, CHR 0xAD, CHR 0xD0,
             CHR 0xBB, CHR 0xD0, CHR 0xB5, CHR 0xD0, CHR 0xBA, CHR 0xD1, CHR 0x82, CHR 0xD1,
             CHR 0x80, CHR 0xD0, CHR 0xBE, CHR 0xD0, CHR 0xBD, CHR 0xD0, CHR 0xB8, CHR 0xD0,
             CHR 0xBA, CHR 0xD0, CHR 0xB0],
          date = ''2024-01-15'', merchant = ''DNS''\<rparr>,
         \<lparr>id_tx = ''t13'', amount = 2000, category = [CHR 0xD0, CHR 0x9E, CHR 0xD0,
             CHR 0xB1, CHR 0xD1, CHR 0x80, CHR 0xD0, CHR 0xB0, CHR 0xD0, CHR 0xB7, CHR 0xD0,
             CHR 0xBE, CHR 0xD0, CHR 0xB2, CHR 0xD0, CHR 0xB0, CHR 0xD0, CHR 0xBD, CHR 0xD0,
             CHR 0xB8, CHR 0xD0, CHR 0xB5],
          date = ''2024-01-10'', merchant = ''Coursera''\<rparr>,
         \<lparr>id_tx = ''t14'', amount = 1000, category = [CHR 0xD0, CHR 0xA2, CHR 0xD1,
             CHR 0x80, CHR 0xD0, CHR 0xB0, CHR 0xD0, CHR 0xBD, CHR 0xD1, CHR 0x81, CHR 0xD0,
             CHR 0xBF, CHR 0xD0, CHR 0xBE, CHR 0xD1, CHR 0x80, CHR 0xD1, CHR 0x82],
          date = ''2024-01-08'', merchant = ([CHR 0xD0, CHR 0xAF, CHR 0xD0, CHR 0xBD,
              CHR 0xD0, CHR 0xB4, CHR 0xD0, CHR 0xB5, CHR 0xD0, CHR 0xBA, CHR 0xD1,
              CHR 0x81] @ ''.'' @ [CHR 0xD0, CHR 0x9A, CHR 0xD0, CHR 0xB0, CHR 0xD1,
              CHR 0x80, CHR 0xD1, CHR 0x82, CHR 0xD1, CHR 0x8B])\<rparr>,
         \<lparr>id_tx = ''t15'', amount = 4000, category = [CHR 0xD0, CHR 0xA0, CHR 0xD0,
             CHR 0xB0, CHR 0xD0, CHR 0xB7, CHR 0xD0, CHR 0xB2, CHR 0xD0, CHR 0xBB, CHR 0xD0,
             CHR 0xB5, CHR 0xD1, CHR 0x87, CHR 0xD0, CHR 0xB5, CHR 0xD0, CHR 0xBD, CHR 0xD0,
             CHR 0xB8, CHR 0xD1, CHR 0x8F],
          date = ''2024-01-05'', merchant = ''Steam''\<rparr>]\<rparr>)]"

definition COMPANIES :: "string list" where
  "COMPANIES =
    [''Retail Analytics Pro'', ''FinTech Insights'', ''Market Research Co'', ''Consumer Trends Lab'']"

definition AVAILABLE_DATA_TYPES :: "string list" where
  "AVAILABLE_DATA_TYPES =
    [''category_spending'', ''average_bill'', ''spending_frequency'', ''geography'',
     ''age_group_stats'']"

subsection \<open>String literals of the responses\<close>

text \<open>The detail of the 404 of \<^verbatim>\<open>manage_consent\<close> (client not found).\<close>

definition detail_client_not_found :: string where
  "detail_client_not_found = ([CHR 0xD0, CHR 0x9A, CHR 0xD0, CHR 0xBB, CHR 0xD0, CHR 0xB8,
      CHR 0xD0, CHR 0xB5, CHR 0xD0, CHR 0xBD, CHR 0xD1, CHR 0x82] @ '' '' @ [CHR 0xD0,
      CHR 0xBD, CHR 0xD0, CHR 0xB5] @ '' '' @ [CHR 0xD0, CHR 0xBD, CHR 0xD0, CHR 0xB0,
      CHR 0xD0, CHR 0xB9, CHR 0xD0, CHR 0xB4, CHR 0xD0, CHR 0xB5, CHR 0xD0, CHR 0xBD])"

text \<open>The prefix of the detail of the 400 of \<^verbatim>\<open>manage_consent\<close> (wrong data type),
  which the offending label follows.\<close>

definition detail_invalid_data_type :: string where
  "detail_invalid_data_type = ([CHR 0xD0, CHR 0x9D, CHR 0xD0, CHR 0xB5, CHR 0xD0, CHR 0xB2,
      CHR 0xD0, CHR 0xB5, CHR 0xD1, CHR 0x80, CHR 0xD0, CHR 0xBD, CHR 0xD1, CHR 0x8B,
      CHR 0xD0, CHR 0xB9] @ '' '' @ [CHR 0xD1, CHR 0x82, CHR 0xD0, CHR 0xB8, CHR 0xD0,
      CHR 0xBF] @ '' '' @ [CHR 0xD0, CHR 0xB4, CHR 0xD0, CHR 0xB0, CHR 0xD0, CHR 0xBD,
      CHR 0xD0, CHR 0xBD, CHR 0xD1, CHR 0x8B, CHR 0xD1, CHR 0x85] @ '': '')"

text \<open>The detail of the 404 of \<^verbatim>\<open>revoke_consent\<close> (consent not found).\<close>

definition detail_consent_not_found :: string where
  "detail_consent_not_found = ([CHR 0xD0, CHR 0xA1, CHR 0xD0, CHR 0xBE, CHR 0xD0, CHR 0xB3,
      CHR 0xD0, CHR 0xBB, CHR 0xD0, CHR 0xB0, CHR 0xD1, CHR 0x81, CHR 0xD0, CHR 0xB8,
      CHR 0xD0, CHR 0xB5] @ '' '' @ [CHR 0xD0, CHR 0xBD, CHR 0xD0,
      CHR 0xB5] @ '' '' @ [CHR 0xD0, CHR 0xBD, CHR 0xD0, CHR 0xB0, CHR 0xD0, CHR 0xB9,
      CHR 0xD0, CHR 0xB4, CHR 0xD0, CHR 0xB5, CHR 0xD0, CHR 0xBD, CHR 0xD0, CHR 0xBE])"

text \<open>The detail of the 400 of \<^verbatim>\<open>get_aggregated_data\<close> (company not found).\<close>

definition detail_company_not_found :: string where
  "detail_company_not_found = ([CHR 0xD0, CHR 0x9A, CHR 0xD0, CHR 0xBE, CHR 0xD0, CHR 0xBC,
      CHR 0xD0, CHR 0xBF, CHR 0xD0, CHR 0xB0, CHR 0xD0, CHR 0xBD, CHR 0xD0, CHR 0xB8,
      CHR 0xD1, CHR 0x8F] @ '' '' @ [CHR 0xD0, CHR 0xBD, CHR 0xD0,
      CHR 0xB5] @ '' '' @ [CHR 0xD0, CHR 0xBD, CHR 0xD0, CHR 0xB0, CHR 0xD0, CHR 0xB9,
      CHR 0xD0, CHR 0xB4, CHR 0xD0, CHR 0xB5, CHR 0xD0, CHR 0xBD, CHR 0xD0, CHR 0xB0])"

text \<open>The messages of the successful responses: consent updated, consent revoked, and
  no data available for this company.\<close>

definition message_consent_updated :: string where
  "message_consent_updated = ([CHR 0xD0, CHR 0xA1, CHR 0xD0, CHR 0xBE, CHR 0xD0, CHR 0xB3,
      CHR 0xD0, CHR 0xBB, CHR 0xD0, CHR 0xB0, CHR 0xD1, CHR 0x81, CHR 0xD0, CHR 0xB8,
      CHR 0xD0, CHR 0xB5] @ '' '' @ [CHR 0xD1, CHR 0x83, CHR 0xD1, CHR 0x81, CHR 0xD0,
      CHR 0xBF, CHR 0xD0, CHR 0xB5, CHR 0xD1, CHR 0x88, CHR 0xD0, CHR 0xBD, CHR 0xD0,
      CHR 0xBE] @ '' '' @ [CHR 0xD0, CHR 0xBE, CHR 0xD0, CHR 0xB1, CHR 0xD0, CHR 0xBD,
      CHR 0xD0, CHR 0xBE, CHR 0xD0, CHR 0xB2, CHR 0xD0, CHR 0xBB, CHR 0xD0, CHR 0xB5,
      CHR 0xD0, CHR 0xBD, CHR 0xD0, CHR 0xBE])"

definition message_consent_revoked :: string where
  "message_consent_revoked = ([CHR 0xD0, CHR 0xA1, CHR 0xD0, CHR 0xBE, CHR 0xD0, CHR 0xB3,
      CHR 0xD0, CHR 0xBB, CHR 0xD0, CHR 0xB0, CHR 0xD1, CHR 0x81, CHR 0xD0, CHR 0xB8,
      CHR 0xD0, CHR 0xB5] @ '' '' @ [CHR 0xD0, CHR 0xBF, CHR 0xD0, CHR 0xBE, CHR 0xD0,
      CHR 0xBB, CHR 0xD0, CHR 0xBD, CHR 0xD0, CHR 0xBE, CHR 0xD1, CHR 0x81, CHR 0xD1,
      CHR 0x82, CHR 0xD1, CHR 0x8C, CHR 0xD1, CHR 0x8E] @ '' '' @ [CHR 0xD0, CHR 0xBE,
      CHR 0xD1, CHR 0x82, CHR 0xD0, CHR 0xBE, CHR 0xD0, CHR 0xB7, CHR 0xD0, CHR 0xB2,
      CHR 0xD0, CHR 0xB0, CHR 0xD0, CHR 0xBD, CHR 0xD0, CHR 0xBE])"

definition message_no_data :: string where
  "message_no_data = ([CHR 0xD0, CHR 0x9D, CHR 0xD0, CHR 0xB5, CHR 0xD1,
      CHR 0x82] @ '' '' @ [CHR 0xD0, CHR 0xB4, CHR 0xD0, CHR 0xBE, CHR 0xD1, CHR 0x81,
      CHR 0xD1, CHR 0x82, CHR 0xD1, CHR 0x83, CHR 0xD0, CHR 0xBF, CHR 0xD0, CHR 0xBD,
      CHR 0xD1, CHR 0x8B, CHR 0xD1, CHR 0x85] @ '' '' @ [CHR 0xD0, CHR 0xB4, CHR 0xD0,
      CHR 0xB0, CHR 0xD0, CHR 0xBD, CHR 0xD0, CHR 0xBD, CHR 0xD1, CHR 0x8B, CHR 0xD1,
      CHR 0x85] @ '' '' @ [CHR 0xD0, CHR 0xB4, CHR 0xD0, CHR 0xBB, CHR 0xD1,
      CHR 0x8F] @ '' '' @ [CHR 0xD1, CHR 0x8D, CHR 0xD1, CHR 0x82, CHR 0xD0, CHR 0xBE,
      CHR 0xD0, CHR 0xB9] @ '' '' @ [CHR 0xD0, CHR 0xBA, CHR 0xD0, CHR 0xBE, CHR 0xD0,
      CHR 0xBC, CHR 0xD0, CHR 0xBF, CHR 0xD0, CHR 0xB0, CHR 0xD0, CHR 0xBD, CHR 0xD0,
      CHR 0xB8, CHR 0xD0, CHR 0xB8])"

text \<open>The value of \<^verbatim>\<open>top_category\<close> when there is no category (no data).\<close>

definition no_data_label :: string where
  "no_data_label = ([CHR 0xD0, CHR 0x9D, CHR 0xD0, CHR 0xB5, CHR 0xD1,
      CHR 0x82] @ '' '' @ [CHR 0xD0, CHR 0xB4, CHR 0xD0, CHR 0xB0, CHR 0xD0, CHR 0xBD,
      CHR 0xD0, CHR 0xBD, CHR 0xD1, CHR 0x8B, CHR 0xD1, CHR 0x85])"

subsection \<open>Python built-ins used by the aggregation\<close>

text \<open>\<^verbatim>\<open>a / n\<close> with \<^verbatim>\<open>n = len(...)\<close>: raises \<^verbatim>\<open>ZeroDivisionError\<close> on a zero divisor.\<close>

definition py_truediv :: "rat \<Rightarrow> nat \<Rightarrow> error + rat" where
  "py_truediv a n = (if n = 0 then Inl ZeroDivisionError else Inr (a / of_nat n))"

text \<open>\<^verbatim>\<open>min(...)\<close> and \<^verbatim>\<open>max(...)\<close> of a sequence: \<^verbatim>\<open>ValueError\<close> on an empty one,
  otherwise a left-to-right scan that replaces the current choice only by a strictly
  smaller (greater) element.\<close>

definition py_min :: "rat list \<Rightarrow> error + rat" where
  "py_min xs =
    (case xs of [] \<Rightarrow> Inl ValueError
     | x # rest \<Rightarrow> Inr (fold (\<lambda>y best. if y < best then y else best) rest x))"

definition py_max :: "rat list \<Rightarrow> error + rat" where
  "py_max xs =
    (case xs of [] \<Rightarrow> Inl ValueError
     | x # rest \<Rightarrow> Inr (fold (\<lambda>y best. if y > best then y else best) rest x))"

text \<open>\<^verbatim>\<open>max(d, key=d.get)\<close> for a dictionary \<open>d\<close>: the scan runs over the keys in
  insertion order, compares the values stored with them, and keeps the first key of
  maximal value.\<close>

definition py_max_key :: "(string \<times> rat) list \<Rightarrow> error + string" where
  "py_max_key d =
    (case d of [] \<Rightarrow> Inl ValueError
     | p # rest \<Rightarrow> Inr (fst (fold (\<lambda>q best. if snd q > snd best then q else best) rest p)))"

text \<open>\<^verbatim>\<open>round(x, 2)\<close>: the nearest multiple of \<open>1/100\<close>, a tie going to the even
  multiple.\<close>

definition round_half_even :: "rat \<Rightarrow> int" where
  "round_half_even y =
    (let f = \<lfloor>y\<rfloor>; d = y - of_int f
     in if d < 1/2 then f else if d > 1/2 then f + 1 else if even f then f else f + 1)"

definition py_round2 :: "rat \<Rightarrow> rat" where
  "py_round2 x = of_int (round_half_even (x * 100)) / 100"

subsection \<open>The aggregation engine: \<^verbatim>\<open>generate_aggregated_data\<close>\<close>

text \<open>
  The module defines \<^verbatim>\<open>generate_aggregated_data\<close> twice; the second definition (the
  last lines of the file) rebinds the name when the module is loaded, so it is the one
  that \<^verbatim>\<open>manage_consent\<close> calls, and the one embedded here.

  One round of the loop over the transactions:
  \<^verbatim>\<open>if category not in category_spending: category_spending[category] = 0\<close>, then
  \<^verbatim>\<open>category_spending[category] += transaction.amount\<close>. The key read by \<^verbatim>\<open>+=\<close> has
  just been made present, so its \<^verbatim>\<open>KeyError\<close> branch returns the dictionary as it is.
\<close>

definition add_transaction :: "Transaction \<Rightarrow> (string \<times> rat) list \<Rightarrow> (string \<times> rat) list" where
  "add_transaction t d =
    (let d1 = (if map_of d (category t) = None then AList.update (category t) 0 d else d)
     in case map_of d1 (category t) of
          Some v \<Rightarrow> AList.update (category t) (v + amount t) d1
        | None \<Rightarrow> d1)"

definition category_spending :: "Transaction list \<Rightarrow> (string \<times> rat) list" where
  "category_spending txs = fold add_transaction txs []"

text \<open>\<^verbatim>\<open>sum(t.amount for t in transactions)\<close>.\<close>

definition total_amount :: "Transaction list \<Rightarrow> rat" where
  "total_amount txs = fold (\<lambda>t s. s + amount t) txs 0"

text \<open>\<^verbatim>\<open>total_amount / len(transactions) if transactions else 0\<close>.\<close>

definition average_bill :: "Transaction list \<Rightarrow> error + rat" where
  "average_bill txs =
    (if txs \<noteq> [] then py_truediv (total_amount txs) (length txs) else Inr 0)"

text \<open>The three guarded expressions of the metrics.\<close>

definition top_category :: "(string \<times> rat) list \<Rightarrow> error + string" where
  "top_category d = (if d \<noteq> [] then py_max_key d else Inr no_data_label)"

definition min_amount :: "Transaction list \<Rightarrow> error + rat" where
  "min_amount txs = (if txs \<noteq> [] then py_min (map amount txs) else Inr 0)"

definition max_amount :: "Transaction list \<Rightarrow> error + rat" where
  "max_amount txs = (if txs \<noteq> [] then py_max (map amount txs) else Inr 0)"

text \<open>
  The function stores three datasets under the keys \<^verbatim>\<open>f"{data_key}_categories"\<close>,
  \<^verbatim>\<open>f"{data_key}_average"\<close> and \<^verbatim>\<open>f"{data_key}_demographics"\<close>, where
  \<^verbatim>\<open>data_key = f"{client_id}_{company}"\<close>. An unknown client is a silent return.
  The argument \<open>now\<close> holds the three time stamps. An exception leaves the table as the
  assignments before it made it.
\<close>

definition generate_aggregated_data ::
  "(string \<times> ClientProfile) list \<Rightarrow> string \<Rightarrow> string \<Rightarrow> string \<times> string \<times> string \<Rightarrow>
   (string \<times> AggregatedData) list \<Rightarrow> (error + unit) \<times> (string \<times> AggregatedData) list" where
  "generate_aggregated_data profiles cid company_name now db =
    (case map_of profiles cid of
       None \<Rightarrow> (Inr (), db)
     | Some client_profile \<Rightarrow>
        (let txs = transactions client_profile;
             spending = category_spending txs;
             total = total_amount txs
         in case average_bill txs of
              Inl e \<Rightarrow> (Inl e, db)
            | Inr average \<Rightarrow>
               (let data_key = cid @ ''_'' @ company_name
                in case top_category spending of
                     Inl e \<Rightarrow> (Inl e, db)
                   | Inr best_category \<Rightarrow>
                      (let db1 = AList.update (data_key @ ''_categories'')
                             \<lparr>company = company_name, data_type = ''category_spending'',
                              metrics = CategoryMetrics spending best_category (length spending) total,
                              sample_size = 1, generated_at = fst now\<rparr> db
                       in case min_amount txs of
                            Inl e \<Rightarrow> (Inl e, db1)
                          | Inr lo \<Rightarrow>
                             (case max_amount txs of
                                Inl e \<Rightarrow> (Inl e, db1)
                              | Inr hi \<Rightarrow>
                                 (let db2 = AList.update (data_key @ ''_average'')
                                        \<lparr>company = company_name, data_type = ''average_bill'',
                                         metrics = AverageMetrics (py_round2 average) lo hi
                                                     (length txs) total,
                                         sample_size = 1, generated_at = fst (snd now)\<rparr> db1;
                                      db3 = AList.update (data_key @ ''_demographics'')
                                        \<lparr>company = company_name, data_type = ''age_group_stats'',
                                         metrics = DemographicMetrics (age_group client_profile)
                                                     (city client_profile)
                                                     (total_balance client_profile) 1,
                                         sample_size = 1, generated_at = snd (snd now)\<rparr> db2
                                  in (Inr (), db3)))))))"

subsection \<open>The consent store: \<^verbatim>\<open>manage_consent\<close> and \<^verbatim>\<open>revoke_consent\<close>\<close>

text \<open>The body of the successful response of \<^verbatim>\<open>manage_consent\<close>.\<close>

record consent_response =
  message :: string
  consent_id :: string
  consent :: ConsentRequest

text \<open>
  \<^verbatim>\<open>manage_consent\<close>: the client check (404), the loop over the data types that
  raises 400 at the first label outside \<^verbatim>\<open>AVAILABLE_DATA_TYPES\<close>, the store under
  \<^verbatim>\<open>f"{client_id}_{company}"\<close>, and the call of the aggregation for an active consent.
  The entry \<^verbatim>\<open>last_updated\<close> that the source adds to the dictionary of the request is not
  a field of \<^verbatim>\<open>ConsentRequest\<close>, the class of the stored value, so the stored value has
  the four fields of the request.
\<close>

definition manage_consent ::
  "(string \<times> ClientProfile) list \<Rightarrow> ConsentRequest \<Rightarrow> string \<times> string \<times> string \<Rightarrow>
   db_state \<Rightarrow> (error + consent_response) \<times> db_state" where
  "manage_consent profiles consent_request now s =
    (if map_of profiles (req_client_id consent_request) = None
     then (Inl (HTTPException 404 detail_client_not_found), s)
     else case find (\<lambda>dt. dt \<notin> set AVAILABLE_DATA_TYPES) (data_types consent_request) of
       Some dt \<Rightarrow> (Inl (HTTPException 400 (detail_invalid_data_type @ dt)), s)
     | None \<Rightarrow>
        (let cons_id = req_client_id consent_request @ ''_'' @ req_company consent_request;
             s1 = s\<lparr>consents_db := AList.update cons_id consent_request (consents_db s)\<rparr>;
             response = \<lparr>message = message_consent_updated, consent_id = cons_id,
                         consent = consent_request\<rparr>
         in if is_active consent_request
            then (case generate_aggregated_data profiles (req_client_id consent_request)
                         (req_company consent_request) now (aggregated_data_db s1) of
                    (Inl e, db) \<Rightarrow> (Inl e, s1\<lparr>aggregated_data_db := db\<rparr>)
                  | (Inr u, db) \<Rightarrow> (Inr response, s1\<lparr>aggregated_data_db := db\<rparr>))
            else (Inr response, s1)))"

text \<open>
  \<^verbatim>\<open>revoke_consent\<close>: deletes the consent stored under the key, then deletes the entry
  of the aggregate table under \<^verbatim>\<open>f"{consent_id}_aggregated"\<close> when there is one; 404
  for an unknown key. The local \<^verbatim>\<open>company = consent_id.split('_')[-1]\<close> is never read.
\<close>

definition revoke_consent :: "string \<Rightarrow> db_state \<Rightarrow> (error + string) \<times> db_state" where
  "revoke_consent cons_id s =
    (if map_of (consents_db s) cons_id \<noteq> None
     then (let s1 = s\<lparr>consents_db := AList.delete cons_id (consents_db s)\<rparr>;
               data_key = cons_id @ ''_aggregated'';
               s2 = (if map_of (aggregated_data_db s1) data_key \<noteq> None
                     then s1\<lparr>aggregated_data_db := AList.delete data_key (aggregated_data_db s1)\<rparr>
                     else s1)
           in (Inr message_consent_revoked, s2))
     else (Inl (HTTPException 404 detail_consent_not_found), s))"

subsection \<open>The read path: \<^verbatim>\<open>get_aggregated_data\<close>\<close>

text \<open>The two shapes of the successful response: \<^verbatim>\<open>{"message", "data": []}\<close> and
  \<^verbatim>\<open>{"company", "total_datasets", "data"}\<close>.\<close>

datatype aggregated_response =
    NoData string "AggregatedData list"
  | CompanyData string nat "AggregatedData list"

fun response_data :: "aggregated_response \<Rightarrow> AggregatedData list" where
  "response_data (NoData msg ds) = ds"
| "response_data (CompanyData c n ds) = ds"

definition get_aggregated_data :: "string \<Rightarrow> db_state \<Rightarrow> error + aggregated_response" where
  "get_aggregated_data company_name s =
    (if company_name \<notin> set COMPANIES
     then Inl (HTTPException 400 detail_company_not_found)
     else (let company_data = map snd (filter (\<lambda>(data_id, data). company data = company_name)
                                          (aggregated_data_db s))
           in if company_data = [] then Inr (NoData message_no_data [])
              else Inr (CompanyData company_name (length company_data) company_data)))"


section \<open>Properties of the embedded functions\<close>

subsection \<open>Sums, minimum, maximum and the guarded division\<close>

lemma fold_add_amount: "fold (\<lambda>t s. s + amount t) txs a = a + sum_list (map amount txs)"
  by (induction txs arbitrary: a) simp_all

lemma total_amount_sum_list: "total_amount txs = sum_list (map amount txs)"
  by (simp add: total_amount_def fold_add_amount)

lemma average_bill_Inr:
  "average_bill txs = Inr (if txs = [] then 0 else total_amount txs / of_nat (length txs))"
  by (simp add: average_bill_def py_truediv_def)

lemma scan_less_is_min: "(\<lambda>y best. if y < best then y else best) = (min :: rat \<Rightarrow> rat \<Rightarrow> rat)"
  by (auto simp: fun_eq_iff min_def)

lemma scan_greater_is_max: "(\<lambda>y best. if y > best then y else best) = (max :: rat \<Rightarrow> rat \<Rightarrow> rat)"
  by (auto simp: fun_eq_iff max_def)

lemma py_min_Min: "xs \<noteq> [] \<Longrightarrow> py_min xs = Inr (Min (set xs))"
proof (cases xs)
  case (Cons a list)
  then show ?thesis using Min.set_eq_fold[of a list] by (simp add: py_min_def scan_less_is_min)
qed simp

lemma py_max_Max: "xs \<noteq> [] \<Longrightarrow> py_max xs = Inr (Max (set xs))"
proof (cases xs)
  case (Cons a list)
  then show ?thesis using Max.set_eq_fold[of a list] by (simp add: py_max_def scan_greater_is_max)
qed simp

lemma min_amount_Inr:
  "min_amount txs = Inr (if txs = [] then 0 else Min (amount ` set txs))"
  by (simp add: min_amount_def py_min_Min)

lemma max_amount_Inr:
  "max_amount txs = Inr (if txs = [] then 0 else Max (amount ` set txs))"
  by (simp add: max_amount_def py_max_Max)

subsection \<open>The loop over the transactions\<close>


lemma keys_add_transaction:
  "map fst (add_transaction t d) =
     (if category t \<in> set (map fst d) then map fst d else map fst d @ [category t])"
  by (auto simp: add_transaction_def Let_def update_keys update_conv' map_of_eq_None_iff
      split: option.splits)

lemma category_spending_snoc:
  "category_spending (txs @ [t]) = add_transaction t (category_spending txs)"
  by (simp add: category_spending_def)

lemma keys_category_spending:
  "map fst (category_spending txs) = rev (remdups (rev (map category txs)))"
proof (induction txs rule: rev_induct)
  case Nil
  show ?case by (simp add: category_spending_def)
next
  case (snoc t txs)
  have "set (map fst (category_spending txs)) = category ` set txs"
    by (simp only: snoc.IH) simp
  then show ?case
    by (simp add: category_spending_snoc keys_add_transaction snoc.IH del: set_map)
qed

lemma distinct_category_spending: "distinct (map fst (category_spending txs))"
  by (simp add: keys_category_spending)

lemma set_keys_category_spending: "fst ` set (category_spending txs) = category ` set txs"
  using arg_cong[OF keys_category_spending, of set txs] by simp

lemma length_category_spending:
  "length (category_spending txs) = card (category ` set txs)"
proof -
  have "length (category_spending txs) = length (map fst (category_spending txs))" by simp
  also have "\<dots> = card (set (map fst (category_spending txs)))"
    using distinct_category_spending by (simp only: distinct_card)
  also have "\<dots> = card (category ` set txs)"
    using set_keys_category_spending by simp
  finally show ?thesis .
qed







lemma top_category_Inr: "\<exists>t. top_category d = Inr t"
  by (cases d) (simp_all add: top_category_def py_max_key_def)

subsection \<open>What the operations return\<close>

lemma generate_aggregated_data_unknown:
  "map_of profiles cid = None \<Longrightarrow> generate_aggregated_data profiles cid c now db = (Inr (), db)"
  by (simp add: generate_aggregated_data_def)

lemma generate_aggregated_data_known:
  assumes "map_of profiles cid = Some p"
  shows "\<exists>best lo hi.
      top_category (category_spending (transactions p)) = Inr best
    \<and> min_amount (transactions p) = Inr lo
    \<and> max_amount (transactions p) = Inr hi
    \<and> generate_aggregated_data profiles cid c now db =
        (Inr (),
         AList.update (cid @ ''_'' @ c @ ''_demographics'')
           \<lparr>company = c, data_type = ''age_group_stats'',
            metrics = DemographicMetrics (age_group p) (city p) (total_balance p) 1,
            sample_size = 1, generated_at = snd (snd now)\<rparr>
          (AList.update (cid @ ''_'' @ c @ ''_average'')
            \<lparr>company = c, data_type = ''average_bill'',
             metrics = AverageMetrics
               (py_round2 (if transactions p = [] then 0
                           else total_amount (transactions p) / of_nat (length (transactions p))))
               lo hi (length (transactions p)) (total_amount (transactions p)),
             sample_size = 1, generated_at = fst (snd now)\<rparr>
           (AList.update (cid @ ''_'' @ c @ ''_categories'')
             \<lparr>company = c, data_type = ''category_spending'',
              metrics = CategoryMetrics (category_spending (transactions p)) best
                (length (category_spending (transactions p))) (total_amount (transactions p)),
              sample_size = 1, generated_at = fst now\<rparr> db)))"
proof -
  obtain best where b: "top_category (category_spending (transactions p)) = Inr best"
    using top_category_Inr by blast
  show ?thesis
    using assms b
    by (simp add: generate_aggregated_data_def Let_def average_bill_Inr min_amount_Inr max_amount_Inr)
qed

lemma generate_aggregated_data_succeeds:
  "fst (generate_aggregated_data profiles cid c now db) = Inr ()"
proof (cases "map_of profiles cid")
  case None
  then show ?thesis by (simp add: generate_aggregated_data_unknown)
next
  case (Some p)
  from generate_aggregated_data_known[OF Some, of c now db] show ?thesis by auto
qed

lemma find_invalid_None:
  "find (\<lambda>dt. dt \<notin> set AVAILABLE_DATA_TYPES) dts = None \<longleftrightarrow> set dts \<subseteq> set AVAILABLE_DATA_TYPES"
  by (auto simp: find_None_iff)

lemma manage_consent_unknown_client:
  "map_of profiles (req_client_id r) = None \<Longrightarrow>
   manage_consent profiles r now s = (Inl (HTTPException 404 detail_client_not_found), s)"
  by (simp add: manage_consent_def)

lemma manage_consent_invalid_type:
  assumes "map_of profiles (req_client_id r) \<noteq> None"
    and "\<not> set (data_types r) \<subseteq> set AVAILABLE_DATA_TYPES"
  shows "\<exists>dt. dt \<in> set (data_types r) \<and> dt \<notin> set AVAILABLE_DATA_TYPES \<and>
    manage_consent profiles r now s = (Inl (HTTPException 400 (detail_invalid_data_type @ dt)), s)"
proof -
  from assms(2) obtain dt where f: "find (\<lambda>dt. dt \<notin> set AVAILABLE_DATA_TYPES) (data_types r) = Some dt"
    using find_invalid_None[of "data_types r"] by (cases "find (\<lambda>dt. dt \<notin> set AVAILABLE_DATA_TYPES) (data_types r)") auto
  then have "dt \<in> set (data_types r) \<and> dt \<notin> set AVAILABLE_DATA_TYPES"
    by (auto simp: find_Some_iff)
  moreover have "manage_consent profiles r now s = (Inl (HTTPException 400 (detail_invalid_data_type @ dt)), s)"
    using assms(1) f by (simp add: manage_consent_def)
  ultimately show ?thesis by blast
qed

lemma manage_consent_valid:
  assumes "map_of profiles (req_client_id r) \<noteq> None"
    and "set (data_types r) \<subseteq> set AVAILABLE_DATA_TYPES"
  shows "manage_consent profiles r now s =
    (Inr \<lparr>message = message_consent_updated,
          consent_id = req_client_id r @ ''_'' @ req_company r, consent = r\<rparr>,
     \<lparr>consents_db = AList.update (req_client_id r @ ''_'' @ req_company r) r (consents_db s),
      aggregated_data_db =
        (if is_active r
         then snd (generate_aggregated_data profiles (req_client_id r) (req_company r) now
                     (aggregated_data_db s))
         else aggregated_data_db s)\<rparr>)"
proof -
  have f: "find (\<lambda>dt. dt \<notin> set AVAILABLE_DATA_TYPES) (data_types r) = None"
    using assms(2) by (simp add: find_invalid_None)
  obtain db where g: "generate_aggregated_data profiles (req_client_id r) (req_company r) now
                     (aggregated_data_db s) = (Inr (), db)"
    using generate_aggregated_data_succeeds[of profiles "req_client_id r" "req_company r" now "aggregated_data_db s"]
    by (cases "generate_aggregated_data profiles (req_client_id r) (req_company r) now
                     (aggregated_data_db s)") auto
  show ?thesis
    using assms(1) f g by (cases s) (simp add: manage_consent_def Let_def)
qed

lemma generate_aggregated_data_stores:
  assumes "map_of profiles cid = Some p"
  shows "\<exists>d1 d2 d3.
      snd (generate_aggregated_data profiles cid c now db) =
        AList.update (cid @ ''_'' @ c @ ''_demographics'') d3
          (AList.update (cid @ ''_'' @ c @ ''_average'') d2
            (AList.update (cid @ ''_'' @ c @ ''_categories'') d1 db))
    \<and> company d1 = c \<and> company d2 = c \<and> company d3 = c
    \<and> data_type d1 = ''category_spending'' \<and> data_type d2 = ''average_bill''
    \<and> data_type d3 = ''age_group_stats''
    \<and> m_total_spent (metrics d1) = sum_list (map amount (transactions p))
    \<and> m_total_amount (metrics d2) = sum_list (map amount (transactions p))"
proof -
  from generate_aggregated_data_known[OF assms, of c now db]
  obtain d1 d2 d3 where
    "generate_aggregated_data profiles cid c now db =
      (Inr (), AList.update (cid @ ''_'' @ c @ ''_demographics'') d3
          (AList.update (cid @ ''_'' @ c @ ''_average'') d2
            (AList.update (cid @ ''_'' @ c @ ''_categories'') d1 db)))"
    and "d1 = \<lparr>company = c, data_type = ''category_spending'',
              metrics = CategoryMetrics (category_spending (transactions p))
                (m_top_category (metrics d1))
                (length (category_spending (transactions p))) (total_amount (transactions p)),
              sample_size = 1, generated_at = fst now\<rparr>"
    and "d2 = \<lparr>company = c, data_type = ''average_bill'',
             metrics = AverageMetrics
               (py_round2 (if transactions p = [] then 0
                           else total_amount (transactions p) / of_nat (length (transactions p))))
               (m_min_amount (metrics d2)) (m_max_amount (metrics d2))
               (length (transactions p)) (total_amount (transactions p)),
             sample_size = 1, generated_at = fst (snd now)\<rparr>"
    and "d3 = \<lparr>company = c, data_type = ''age_group_stats'',
            metrics = DemographicMetrics (age_group p) (city p) (total_balance p) 1,
            sample_size = 1, generated_at = snd (snd now)\<rparr>"
    by (elim exE conjE) simp
  then have "snd (generate_aggregated_data profiles cid c now db) =
        AList.update (cid @ ''_'' @ c @ ''_demographics'') d3
          (AList.update (cid @ ''_'' @ c @ ''_average'') d2
            (AList.update (cid @ ''_'' @ c @ ''_categories'') d1 db))
    \<and> company d1 = c \<and> company d2 = c \<and> company d3 = c
    \<and> data_type d1 = ''category_spending'' \<and> data_type d2 = ''average_bill''
    \<and> data_type d3 = ''age_group_stats''
    \<and> m_total_spent (metrics d1) = sum_list (map amount (transactions p))
    \<and> m_total_amount (metrics d2) = sum_list (map amount (transactions p))"
    by (metis (no_types, lifting) AggregatedData.select_convs(1,2,3) Metrics.sel(4,9) snd_conv total_amount_sum_list)
  then show ?thesis by blast
qed

lemma suffixes_differ:
  "k @ ''_categories'' \<noteq> k @ ''_average''"
  "k @ ''_categories'' \<noteq> k @ ''_demographics''"
  "k @ ''_average'' \<noteq> k @ ''_demographics''"
  "k @ ''_average'' \<noteq> k @ ''_categories''"
  "k @ ''_demographics'' \<noteq> k @ ''_categories''"
  "k @ ''_demographics'' \<noteq> k @ ''_average''"
  by simp_all

lemma generate_from_empty:
  assumes "map_of profiles cid = Some p"
  shows "\<exists>d1 d2 d3.
      snd (generate_aggregated_data profiles cid c now []) =
        [(cid @ ''_'' @ c @ ''_categories'', d1), (cid @ ''_'' @ c @ ''_average'', d2),
         (cid @ ''_'' @ c @ ''_demographics'', d3)]
    \<and> company d1 = c \<and> company d2 = c \<and> company d3 = c
    \<and> m_total_spent (metrics d1) = sum_list (map amount (transactions p))
    \<and> m_total_amount (metrics d2) = sum_list (map amount (transactions p))"
proof -
  from generate_aggregated_data_stores[OF assms, of c now "[]"]
  obtain d1 d2 d3 where
    "snd (generate_aggregated_data profiles cid c now []) =
        AList.update (cid @ ''_'' @ c @ ''_demographics'') d3
          (AList.update (cid @ ''_'' @ c @ ''_average'') d2
            (AList.update (cid @ ''_'' @ c @ ''_categories'') d1 []))"
    and "company d1 = c" "company d2 = c" "company d3 = c"
    and "m_total_spent (metrics d1) = sum_list (map amount (transactions p))"
    and "m_total_amount (metrics d2) = sum_list (map amount (transactions p))"
    by blast
  then have "snd (generate_aggregated_data profiles cid c now []) =
        [(cid @ ''_'' @ c @ ''_categories'', d1), (cid @ ''_'' @ c @ ''_average'', d2),
         (cid @ ''_'' @ c @ ''_demographics'', d3)]
    \<and> company d1 = c \<and> company d2 = c \<and> company d3 = c
    \<and> m_total_spent (metrics d1) = sum_list (map amount (transactions p))
    \<and> m_total_amount (metrics d2) = sum_list (map amount (transactions p))"
    by simp
  then show ?thesis by blast
qed


lemma get_aggregated_data_Inr:
  assumes "get_aggregated_data c t = Inr resp"
  shows "c \<in> set COMPANIES"
    and "response_data resp = map snd (filter (\<lambda>(k, d). company d = c) (aggregated_data_db t))"
  using assms by (auto simp: get_aggregated_data_def Let_def split: if_splits)

lemma get_aggregated_data_unknown_company:
  "c \<notin> set COMPANIES \<Longrightarrow> get_aggregated_data c t = Inl (HTTPException 400 detail_company_not_found)"
  by (simp add: get_aggregated_data_def)

lemma map_of_three_updates:
  "map_of (AList.update (k @ ''_demographics'') d3 (AList.update (k @ ''_average'') d2
     (AList.update (k @ ''_categories'') d1 db))) (k @ ''_categories'') = Some d1"
  "map_of (AList.update (k @ ''_demographics'') d3 (AList.update (k @ ''_average'') d2
     (AList.update (k @ ''_categories'') d1 db))) (k @ ''_average'') = Some d2"
  "map_of (AList.update (k @ ''_demographics'') d3 (AList.update (k @ ''_average'') d2
     (AList.update (k @ ''_categories'') d1 db))) (k @ ''_demographics'') = Some d3"
  by (simp_all add: update_conv')

lemma generate_aggregated_data_lookup:
  assumes "map_of profiles cid = Some p"
  shows "\<exists>d1 d2 d3.
      map_of (snd (generate_aggregated_data profiles cid c now db))
        (cid @ ''_'' @ c @ ''_categories'') = Some d1
    \<and> map_of (snd (generate_aggregated_data profiles cid c now db))
        (cid @ ''_'' @ c @ ''_average'') = Some d2
    \<and> map_of (snd (generate_aggregated_data profiles cid c now db))
        (cid @ ''_'' @ c @ ''_demographics'') = Some d3
    \<and> company d1 = c \<and> company d2 = c \<and> company d3 = c
    \<and> data_type d1 = ''category_spending'' \<and> data_type d2 = ''average_bill''
    \<and> data_type d3 = ''age_group_stats''"
proof -
  from generate_aggregated_data_stores[OF assms, of c now db]
  obtain d1 d2 d3 where
    g: "snd (generate_aggregated_data profiles cid c now db) =
        AList.update ((cid @ ''_'' @ c) @ ''_demographics'') d3
          (AList.update ((cid @ ''_'' @ c) @ ''_average'') d2
            (AList.update ((cid @ ''_'' @ c) @ ''_categories'') d1 db))"
    and co: "company d1 = c" "company d2 = c" "company d3 = c"
      "data_type d1 = ''category_spending''" "data_type d2 = ''average_bill''"
      "data_type d3 = ''age_group_stats''"
    by auto
  have "map_of (snd (generate_aggregated_data profiles cid c now db))
        ((cid @ ''_'' @ c) @ ''_categories'') = Some d1
    \<and> map_of (snd (generate_aggregated_data profiles cid c now db))
        ((cid @ ''_'' @ c) @ ''_average'') = Some d2
    \<and> map_of (snd (generate_aggregated_data profiles cid c now db))
        ((cid @ ''_'' @ c) @ ''_demographics'') = Some d3"
    unfolding g by (simp only: map_of_three_updates)
  with co show ?thesis by auto
qed

lemma filter_update_unique:
  assumes "distinct (map fst xs)" and "\<forall>(k, v)\<in>set xs. P v \<longrightarrow> k = key" and "P r"
  shows "filter (\<lambda>(k, v). P v) (AList.update key r xs) = [(key, r)]"
  using assms
proof (induction xs)
  case Nil
  then show ?case by simp
next
  case (Cons x xs)
  obtain k v where x: "x = (k, v)" by (cases x)
  show ?case
  proof (cases "k = key")
    case True
    have "\<forall>(k', v')\<in>set xs. \<not> P v'"
      using Cons.prems(1,2) True x by (auto simp: image_iff) 
    then have "filter (\<lambda>(k, v). P v) xs = []"
      by (auto simp: filter_empty_conv)
    then show ?thesis using True x Cons.prems(3) by simp
  next
    case False
    have "\<not> P v" using Cons.prems(2) False x by auto
    moreover have "filter (\<lambda>(k, v). P v) (AList.update key r xs) = [(key, r)]"
      using Cons.IH Cons.prems by auto
    ultimately show ?thesis using False x by simp
  qed
qed

lemma length_filter_keys:
  assumes "distinct (map fst xs)"
  shows "length (filter (\<lambda>(k, v). k \<in> K) xs) = card (K \<inter> fst ` set xs)"
proof -
  have "length (filter (\<lambda>(k, v). k \<in> K) xs) = length (filter (\<lambda>k. k \<in> K) (map fst xs))"
    by (induction xs) auto
  also have "\<dots> = card ({k. k \<in> K} \<inter> set (map fst xs))"
    using assms by (rule distinct_length_filter)
  finally show ?thesis by simp
qed

lemma keys_update_present:
  "k \<in> fst ` set xs \<Longrightarrow> map fst (AList.update k v xs) = map fst xs"
  by (simp add: update_keys)

lemma generate_aggregated_data_keys:
  assumes "map_of profiles cid = Some p"
  shows "{cid @ ''_'' @ c @ ''_categories'', cid @ ''_'' @ c @ ''_average'',
          cid @ ''_'' @ c @ ''_demographics''}
         \<subseteq> fst ` set (snd (generate_aggregated_data profiles cid c now db))"
    and "distinct (map fst db) \<Longrightarrow>
         distinct (map fst (snd (generate_aggregated_data profiles cid c now db)))"
    and "{cid @ ''_'' @ c @ ''_categories'', cid @ ''_'' @ c @ ''_average'',
          cid @ ''_'' @ c @ ''_demographics''} \<subseteq> fst ` set db \<Longrightarrow>
         map fst (snd (generate_aggregated_data profiles cid c now db)) = map fst db"
proof -
  from generate_aggregated_data_stores[OF assms, of c now db]
  obtain d1 d2 d3 where
    g: "snd (generate_aggregated_data profiles cid c now db) =
        AList.update (cid @ ''_'' @ c @ ''_demographics'') d3
          (AList.update (cid @ ''_'' @ c @ ''_average'') d2
            (AList.update (cid @ ''_'' @ c @ ''_categories'') d1 db))"
    by auto
  show "{cid @ ''_'' @ c @ ''_categories'', cid @ ''_'' @ c @ ''_average'',
          cid @ ''_'' @ c @ ''_demographics''}
         \<subseteq> fst ` set (snd (generate_aggregated_data profiles cid c now db))"
    unfolding g by (simp add: dom_update)
  show "distinct (map fst (snd (generate_aggregated_data profiles cid c now db)))"
    if "distinct (map fst db)"
    unfolding g using that by (intro distinct_update)
  show "map fst (snd (generate_aggregated_data profiles cid c now db)) = map fst db"
    if "{cid @ ''_'' @ c @ ''_categories'', cid @ ''_'' @ c @ ''_average'',
          cid @ ''_'' @ c @ ''_demographics''} \<subseteq> fst ` set db"
    unfolding g using that by (simp add: keys_update_present dom_update)
qed

lemma revoke_consent_unknown:
  "map_of (consents_db s) k = None \<Longrightarrow>
   revoke_consent k s = (Inl (HTTPException 404 detail_consent_not_found), s)"
  by (simp add: revoke_consent_def)

lemma revoke_consent_known:
  "map_of (consents_db s) k \<noteq> None \<Longrightarrow> fst (revoke_consent k s) = Inr message_consent_revoked"
  by (simp add: revoke_consent_def Let_def)









lemma client_1_profile:
  "\<exists>p. map_of client_profiles_db ''client_1'' = Some p \<and>
     map amount (transactions p) = [2500, 5000, 12000, 3500, 8000] \<and>
     distinct (map category (transactions p))"
  by (simp add: client_profiles_db_def)

subsection \<open>The states that the operations produce\<close>

text \<open>The keys of each table are distinct, and every grant is stored under the key of
  its own fields: this holds in the empty state and after every operation.\<close>

lemma set_update_subset: "set (AList.update k v al) \<subseteq> insert (k, v) (set al)"
  by (induction al) auto

lemma set_delete_subset: "set (AList.delete k al) \<subseteq> set al"
  by (auto simp: AList.delete_eq)

lemma reachable_invariant_empty:
  "distinct (map fst (consents_db empty_state))
   \<and> distinct (map fst (aggregated_data_db empty_state))
   \<and> (\<forall>(k, v)\<in>set (consents_db empty_state). k = req_client_id v @ ''_'' @ req_company v)"
  by (simp add: empty_state_def)

lemma reachable_invariant_manage_consent:
  assumes "distinct (map fst (consents_db s))"
    and "distinct (map fst (aggregated_data_db s))"
    and "\<forall>(k, v)\<in>set (consents_db s). k = req_client_id v @ ''_'' @ req_company v"
  shows "distinct (map fst (consents_db (snd (manage_consent profiles r now s))))
   \<and> distinct (map fst (aggregated_data_db (snd (manage_consent profiles r now s))))
   \<and> (\<forall>(k, v)\<in>set (consents_db (snd (manage_consent profiles r now s))).
         k = req_client_id v @ ''_'' @ req_company v)"
proof -
  consider (unknown) "map_of profiles (req_client_id r) = None"
    | (invalid) "map_of profiles (req_client_id r) \<noteq> None"
        "\<not> set (data_types r) \<subseteq> set AVAILABLE_DATA_TYPES"
    | (valid) "map_of profiles (req_client_id r) \<noteq> None"
        "set (data_types r) \<subseteq> set AVAILABLE_DATA_TYPES"
    by blast
  then show ?thesis
  proof cases
    case unknown
    show ?thesis
      unfolding manage_consent_unknown_client[OF unknown] using assms by simp
  next
    case invalid
    from manage_consent_invalid_type[OF invalid, of now s] obtain dt where
      "manage_consent profiles r now s =
         (Inl (HTTPException 400 (detail_invalid_data_type @ dt)), s)"
      by blast
    then show ?thesis using assms by simp
  next
    case valid
    from valid(1) obtain p where p: "map_of profiles (req_client_id r) = Some p" by auto
    have a: "distinct (map fst (AList.update (req_client_id r @ ''_'' @ req_company r) r
        (consents_db s)))"
      using assms(1) by (rule distinct_update)
    have b: "\<forall>(k, v)\<in>set (AList.update (req_client_id r @ ''_'' @ req_company r) r
        (consents_db s)). k = req_client_id v @ ''_'' @ req_company v"
      using assms(3) set_update_subset[of "req_client_id r @ ''_'' @ req_company r" r "consents_db s"]
      by auto
    have c: "distinct (map fst (snd (generate_aggregated_data profiles (req_client_id r)
        (req_company r) now (aggregated_data_db s))))"
      using assms(2) by (rule generate_aggregated_data_keys(2)[OF p])
    show ?thesis
      unfolding manage_consent_valid[OF valid] using a b c assms(2) by simp
  qed
qed

lemma reachable_invariant_revoke_consent:
  assumes "distinct (map fst (consents_db s))"
    and "distinct (map fst (aggregated_data_db s))"
    and "\<forall>(k, v)\<in>set (consents_db s). k = req_client_id v @ ''_'' @ req_company v"
  shows "distinct (map fst (consents_db (snd (revoke_consent key s))))
   \<and> distinct (map fst (aggregated_data_db (snd (revoke_consent key s))))
   \<and> (\<forall>(k, v)\<in>set (consents_db (snd (revoke_consent key s))).
         k = req_client_id v @ ''_'' @ req_company v)"
  using assms set_delete_subset[of key "consents_db s"]
  by (auto simp: revoke_consent_def Let_def distinct_delete)

section \<open>The claims\<close>

subsection \<open>Revoking a consent\<close>

text \<open>
  Claim C1 (a defect of the code). The claim says that a successful revoke deletes the grant
  and the aggregated datasets of its (client, company) pair, so that a later read for the
  company no longer returns them. The code deletes the grant, and then looks for the key
  \<^verbatim>\<open>f"{consent_id}_aggregated"\<close> in the aggregate table, while the aggregation stores under
  the keys \<^verbatim>\<open>f"{consent_id}_categories"\<close>, \<^verbatim>\<open>f"{consent_id}_average"\<close> and
  \<^verbatim>\<open>f"{consent_id}_demographics"\<close>. The theorem runs the code from the empty tables: an
  active upsert for \<open>client_1\<close> and the partner Retail Analytics Pro, then the revoke of
  the key of the grant. The revoke succeeds and the consent table is empty, but the
  aggregate table is the one before the revoke, with its three datasets, and the read for
  the company returns all three.
\<close>

theorem revoke_consent_keeps_aggregates:
  "(let r = \<lparr>req_client_id = ''client_1'', req_company = ''Retail Analytics Pro'',
             data_types = [''category_spending'', ''average_bill'', ''age_group_stats''],
             is_active = True\<rparr>;
        now = (''2024-02-01T10:00:00'', ''2024-02-01T10:00:01'', ''2024-02-01T10:00:02'');
        s1 = snd (manage_consent client_profiles_db r now empty_state);
        s2 = snd (revoke_consent ''client_1_Retail Analytics Pro'' s1)
    in map fst (consents_db s1) = [''client_1_Retail Analytics Pro'']
       \<and> fst (revoke_consent ''client_1_Retail Analytics Pro'' s1) = Inr message_consent_revoked
       \<and> consents_db s2 = []
       \<and> map fst (aggregated_data_db s2) =
            [''client_1_Retail Analytics Pro_categories'',
             ''client_1_Retail Analytics Pro_average'',
             ''client_1_Retail Analytics Pro_demographics'']
       \<and> aggregated_data_db s2 = aggregated_data_db s1
       \<and> get_aggregated_data ''Retail Analytics Pro'' s2 =
            Inr (CompanyData ''Retail Analytics Pro'' 3 (map snd (aggregated_data_db s1))))"
proof -
  define r where "r = \<lparr>req_client_id = ''client_1'', req_company = ''Retail Analytics Pro'',
             data_types = [''category_spending'', ''average_bill'', ''age_group_stats''],
             is_active = True\<rparr>"
  define now where "now = (''2024-02-01T10:00:00'', ''2024-02-01T10:00:01'', ''2024-02-01T10:00:02'')"
  define s1 where "s1 = snd (manage_consent client_profiles_db r now empty_state)"
  obtain p where p: "map_of client_profiles_db ''client_1'' = Some p"
    using client_1_profile by (elim exE conjE)
  have valid: "map_of client_profiles_db (req_client_id r) \<noteq> None"
    "set (data_types r) \<subseteq> set AVAILABLE_DATA_TYPES"
    by (simp_all add: r_def p AVAILABLE_DATA_TYPES_def)
  obtain d1 d2 d3 where
    g: "snd (generate_aggregated_data client_profiles_db ''client_1'' ''Retail Analytics Pro'' now []) =
          AList.update (''client_1'' @ ''_'' @ ''Retail Analytics Pro'' @ ''_demographics'') d3
          (AList.update (''client_1'' @ ''_'' @ ''Retail Analytics Pro'' @ ''_average'') d2
            (AList.update (''client_1'' @ ''_'' @ ''Retail Analytics Pro'' @ ''_categories'') d1 []))"
    and c: "company d1 = ''Retail Analytics Pro''" "company d2 = ''Retail Analytics Pro''"
      "company d3 = ''Retail Analytics Pro''"
    using generate_aggregated_data_stores[OF p, of "''Retail Analytics Pro''" now "[]"] by blast
  have s1: "s1 = \<lparr>consents_db = [(''client_1_Retail Analytics Pro'', r)],
                  aggregated_data_db =
                    [(''client_1_Retail Analytics Pro_categories'', d1),
                     (''client_1_Retail Analytics Pro_average'', d2),
                     (''client_1_Retail Analytics Pro_demographics'', d3)]\<rparr>"
    unfolding s1_def manage_consent_valid[OF valid]
    using g by (simp add: r_def empty_state_def)
  have "map fst (consents_db s1) = [''client_1_Retail Analytics Pro'']
       \<and> fst (revoke_consent ''client_1_Retail Analytics Pro'' s1) = Inr message_consent_revoked
       \<and> consents_db (snd (revoke_consent ''client_1_Retail Analytics Pro'' s1)) = []
       \<and> map fst (aggregated_data_db (snd (revoke_consent ''client_1_Retail Analytics Pro'' s1))) =
            [''client_1_Retail Analytics Pro_categories'',
             ''client_1_Retail Analytics Pro_average'',
             ''client_1_Retail Analytics Pro_demographics'']
       \<and> aggregated_data_db (snd (revoke_consent ''client_1_Retail Analytics Pro'' s1)) = aggregated_data_db s1
       \<and> get_aggregated_data ''Retail Analytics Pro'' (snd (revoke_consent ''client_1_Retail Analytics Pro'' s1)) =
            Inr (CompanyData ''Retail Analytics Pro'' 3 (map snd (aggregated_data_db s1)))"
    by (simp add: s1 revoke_consent_def get_aggregated_data_def COMPANIES_def c)
  then show ?thesis
    unfolding Let_def s1_def r_def now_def .
qed

subsection \<open>An active upsert followed by a read\<close>




subsection \<open>The average-bill dataset\<close>




subsection \<open>The category-spend dataset\<close>



subsection \<open>Failures of the upsert and of the revoke\<close>

text \<open>
  Claim C5, as stated: the upsert fails with InvalidArgument (status 400) if and only if
  some entry of the data types is outside the permitted set. It fails where the client is
  unknown as well: the client check comes first, so the upsert of the unknown client
  \<open>client_9\<close> with the data type \<open>iban\<close>, which is outside the set, fails with NotFound
  (status 404), not with InvalidArgument.
\<close>

theorem failed_operations_change_nothing_counterexample:
  "manage_consent client_profiles_db
     \<lparr>req_client_id = ''client_9'', req_company = ''FinTech Insights'',
      data_types = [''iban''], is_active = True\<rparr> (''a'', ''b'', ''c'') empty_state =
     (Inl (HTTPException 404 detail_client_not_found), empty_state)
   \<and> ''iban'' \<notin> set AVAILABLE_DATA_TYPES"
  by (simp add: manage_consent_def client_profiles_db_def AVAILABLE_DATA_TYPES_def)

text \<open>
  Claim C5, amended. The upsert fails with NotFound (status 404) if and only if the client
  id is not in the profile table; it fails with InvalidArgument (status 400) if and only
  if the client id is in the profile table and some entry of the data types is outside
  \<open>{category_spending, average_bill, spending_frequency, geography, age_group_stats}\<close>.
  Whenever the upsert fails, it fails with one of the two and the state (the consent
  table and the aggregate table) is the state before the call. Whenever the revoke
  fails, it fails with NotFound for a key that is not in the consent table, and the state
  is the state before the call.
\<close>

theorem failed_operations_change_nothing:
  "((\<exists>d s'. manage_consent profiles r now s = (Inl (HTTPException 404 d), s'))
      \<longleftrightarrow> map_of profiles (req_client_id r) = None)
   \<and> ((\<exists>d s'. manage_consent profiles r now s = (Inl (HTTPException 400 d), s'))
      \<longleftrightarrow> map_of profiles (req_client_id r) \<noteq> None
          \<and> (\<exists>dt. dt \<in> set (data_types r) \<and>
                dt \<notin> {''category_spending'', ''average_bill'', ''spending_frequency'',
                       ''geography'', ''age_group_stats''}))
   \<and> (\<forall>e s'. manage_consent profiles r now s = (Inl e, s') \<longrightarrow>
         s' = s \<and> (\<exists>d. e = HTTPException 404 d \<or> e = HTTPException 400 d))
   \<and> (\<forall>e s'. revoke_consent k s = (Inl e, s') \<longrightarrow>
         s' = s \<and> e = HTTPException 404 detail_consent_not_found
         \<and> map_of (consents_db s) k = None)"
proof -
  have labels: "set AVAILABLE_DATA_TYPES = {''category_spending'', ''average_bill'',
      ''spending_frequency'', ''geography'', ''age_group_stats''}"
    by (simp add: AVAILABLE_DATA_TYPES_def)
  have sub: "(\<exists>dt. dt \<in> set (data_types r) \<and>
                dt \<notin> {''category_spending'', ''average_bill'', ''spending_frequency'',
                       ''geography'', ''age_group_stats''})
      \<longleftrightarrow> \<not> set (data_types r) \<subseteq> set AVAILABLE_DATA_TYPES"
  proof -
    have "(\<exists>dt. dt \<in> set (data_types r) \<and> dt \<notin> A) \<longleftrightarrow> \<not> set (data_types r) \<subseteq> A"
      for A by blast
    from this[of "set AVAILABLE_DATA_TYPES"] show ?thesis by (simp only: labels)
  qed
  consider (unknown) "map_of profiles (req_client_id r) = None"
    | (invalid) "map_of profiles (req_client_id r) \<noteq> None"
        "\<not> set (data_types r) \<subseteq> set AVAILABLE_DATA_TYPES"
    | (valid) "map_of profiles (req_client_id r) \<noteq> None"
        "set (data_types r) \<subseteq> set AVAILABLE_DATA_TYPES"
    by blast
  then have upsert:
    "((\<exists>d s'. manage_consent profiles r now s = (Inl (HTTPException 404 d), s'))
      \<longleftrightarrow> map_of profiles (req_client_id r) = None)
   \<and> ((\<exists>d s'. manage_consent profiles r now s = (Inl (HTTPException 400 d), s'))
      \<longleftrightarrow> map_of profiles (req_client_id r) \<noteq> None
          \<and> \<not> set (data_types r) \<subseteq> set AVAILABLE_DATA_TYPES)
   \<and> (\<forall>e s'. manage_consent profiles r now s = (Inl e, s') \<longrightarrow>
         s' = s \<and> (\<exists>d. e = HTTPException 404 d \<or> e = HTTPException 400 d))"
  proof cases
    case unknown
    show ?thesis
      unfolding manage_consent_unknown_client[OF unknown] using unknown by simp
  next
    case invalid
    from manage_consent_invalid_type[OF invalid, of now s] obtain dt where
      "manage_consent profiles r now s =
         (Inl (HTTPException 400 (detail_invalid_data_type @ dt)), s)"
      by blast
    then show ?thesis using invalid by simp
  next
    case valid
    show ?thesis
      unfolding manage_consent_valid[OF valid] using valid by simp
  qed
  have revoke: "\<forall>e s'. revoke_consent k s = (Inl e, s') \<longrightarrow>
         s' = s \<and> e = HTTPException 404 detail_consent_not_found
         \<and> map_of (consents_db s) k = None"
  proof (cases "map_of (consents_db s) k")
    case None
    then show ?thesis by (simp add: revoke_consent_unknown)
  next
    case (Some a)
    then have "fst (revoke_consent k s) = Inr message_consent_revoked"
      by (simp add: revoke_consent_known)
    then show ?thesis by (metis Inl_Inr_False fst_conv)
  qed
  show ?thesis
    using upsert revoke unfolding sub by blast
qed

text \<open>The theorem in the state that an active upsert of \<open>client_2\<close> has left (one
  grant, three datasets): the upsert of an unknown client, the upsert with the data type
  \<open>iban\<close> and the revoke of an unknown key fail and return that state.\<close>

theorem failed_operations_change_nothing_witness:
  "(let s0 = snd (manage_consent client_profiles_db
                \<lparr>req_client_id = ''client_2'', req_company = ''FinTech Insights'',
                 data_types = [''geography''], is_active = True\<rparr> (''a'', ''b'', ''c'') empty_state)
    in length (consents_db s0) = 1 \<and> length (aggregated_data_db s0) = 3
     \<and> manage_consent client_profiles_db
         \<lparr>req_client_id = ''client_7'', req_company = ''FinTech Insights'',
          data_types = [''geography''], is_active = True\<rparr> (''d'', ''e'', ''f'') s0
        = (Inl (HTTPException 404 detail_client_not_found), s0)
     \<and> manage_consent client_profiles_db
         \<lparr>req_client_id = ''client_1'', req_company = ''FinTech Insights'',
          data_types = [''geography'', ''iban''], is_active = True\<rparr> (''d'', ''e'', ''f'') s0
        = (Inl (HTTPException 400 (detail_invalid_data_type @ ''iban'')), s0)
     \<and> revoke_consent ''client_1_FinTech Insights'' s0
        = (Inl (HTTPException 404 detail_consent_not_found), s0))"
proof -
  let ?r0 = "\<lparr>req_client_id = ''client_2'', req_company = ''FinTech Insights'',
                 data_types = [''geography''], is_active = True\<rparr>"
  let ?ra = "\<lparr>req_client_id = ''client_7'', req_company = ''FinTech Insights'',
          data_types = [''geography''], is_active = True\<rparr>"
  let ?rb = "\<lparr>req_client_id = ''client_1'', req_company = ''FinTech Insights'',
          data_types = [''geography'', ''iban''], is_active = True\<rparr>"
  define s0 where "s0 = snd (manage_consent client_profiles_db ?r0 (''a'', ''b'', ''c'') empty_state)"
  obtain p2 where p2: "map_of client_profiles_db ''client_2'' = Some p2"
    by (simp add: client_profiles_db_def)
  have v0: "map_of client_profiles_db (req_client_id ?r0) \<noteq> None"
    "set (data_types ?r0) \<subseteq> set AVAILABLE_DATA_TYPES"
    by (simp_all add: p2 AVAILABLE_DATA_TYPES_def)
  from generate_from_empty[OF p2, of "''FinTech Insights''" "(''a'', ''b'', ''c'')"]
  have lens: "length (consents_db s0) = 1 \<and> length (aggregated_data_db s0) = 3"
    and cons: "consents_db s0 = [(''client_2_FinTech Insights'', ?r0)]"
    unfolding s0_def manage_consent_valid[OF v0] by (auto simp: empty_state_def)
  have fa: "fst (manage_consent client_profiles_db ?ra (''d'', ''e'', ''f'') s0)
      = Inl (HTTPException 404 detail_client_not_found)"
    by (simp add: manage_consent_def client_profiles_db_def)
  have fb: "fst (manage_consent client_profiles_db ?rb (''d'', ''e'', ''f'') s0)
      = Inl (HTTPException 400 (detail_invalid_data_type @ ''iban''))"
    by (simp add: manage_consent_def client_profiles_db_def AVAILABLE_DATA_TYPES_def)
  have fc: "fst (revoke_consent ''client_1_FinTech Insights'' s0)
      = Inl (HTTPException 404 detail_consent_not_found)"
    by (simp add: revoke_consent_def cons)
  have a: "manage_consent client_profiles_db ?ra (''d'', ''e'', ''f'') s0
        = (Inl (HTTPException 404 detail_client_not_found), s0)"
    using failed_operations_change_nothing[of client_profiles_db ?ra "(''d'', ''e'', ''f'')" s0] fa
    by (metis prod.collapse)
  have b: "manage_consent client_profiles_db ?rb (''d'', ''e'', ''f'') s0
        = (Inl (HTTPException 400 (detail_invalid_data_type @ ''iban'')), s0)"
    using failed_operations_change_nothing[of client_profiles_db ?rb "(''d'', ''e'', ''f'')" s0] fb
    by (metis prod.collapse)
  have c: "revoke_consent ''client_1_FinTech Insights'' s0
        = (Inl (HTTPException 404 detail_consent_not_found), s0)"
    using failed_operations_change_nothing[of client_profiles_db ?ra "(''d'', ''e'', ''f'')" s0
        "''client_1_FinTech Insights''"] fc
    by (metis prod.collapse)
  show ?thesis
    unfolding Let_def s0_def[symmetric] using lens a b c by simp
qed

subsection \<open>The read for a company\<close>

text \<open>
  Claim C6. The read fails with InvalidArgument (status 400) if and only if the company is
  not in \<^verbatim>\<open>COMPANIES\<close>, and it fails in no other way. For a company of the list it returns
  the datasets of the aggregate table whose \<^verbatim>\<open>company\<close> field is the requested company,
  in the order of the table, whatever client and kind they belong to: the returned
  datasets are exactly the stored ones with that company, one per key that holds such a
  dataset when the keys are distinct. When no stored dataset has the company, the
  response is the message that no data is available together with the empty list, not
  an error; otherwise it is the company, the number of datasets and the datasets.
\<close>

theorem read_for_company:
  "((\<exists>d. get_aggregated_data c s = Inl (HTTPException 400 d)) \<longleftrightarrow> c \<notin> set COMPANIES)
   \<and> (\<forall>e. get_aggregated_data c s = Inl e \<longrightarrow> e = HTTPException 400 detail_company_not_found)
   \<and> (c \<in> set COMPANIES \<longrightarrow>
        (\<exists>resp. get_aggregated_data c s = Inr resp
           \<and> response_data resp =
               map snd (filter (\<lambda>(k, d). company d = c) (aggregated_data_db s))
           \<and> set (response_data resp) =
               {d. \<exists>k. (k, d) \<in> set (aggregated_data_db s) \<and> company d = c}
           \<and> (distinct (map fst (aggregated_data_db s)) \<longrightarrow>
                set (response_data resp) =
                  {d. \<exists>k. map_of (aggregated_data_db s) k = Some d \<and> company d = c}
                \<and> length (response_data resp) =
                  card {k. \<exists>d. map_of (aggregated_data_db s) k = Some d \<and> company d = c})
           \<and> ((\<forall>kd\<in>set (aggregated_data_db s). company (snd kd) \<noteq> c) \<longrightarrow>
                resp = NoData message_no_data [])
           \<and> ((\<exists>kd\<in>set (aggregated_data_db s). company (snd kd) = c) \<longrightarrow>
                resp = CompanyData c (length (response_data resp)) (response_data resp))))"
proof -
  define ds where "ds = map snd (filter (\<lambda>(k, d). company d = c) (aggregated_data_db s))"
  have set_ds: "set ds = {d. \<exists>k. (k, d) \<in> set (aggregated_data_db s) \<and> company d = c}"
    by (auto simp: ds_def image_iff)
  have empty_iff: "ds = [] \<longleftrightarrow> (\<forall>kd\<in>set (aggregated_data_db s). company (snd kd) \<noteq> c)"
    by (auto simp: ds_def filter_empty_conv)
  have dist: "set ds = {d. \<exists>k. map_of (aggregated_data_db s) k = Some d \<and> company d = c}
      \<and> length ds = card {k. \<exists>d. map_of (aggregated_data_db s) k = Some d \<and> company d = c}"
    if di: "distinct (map fst (aggregated_data_db s))"
  proof
    show "set ds = {d. \<exists>k. map_of (aggregated_data_db s) k = Some d \<and> company d = c}"
      unfolding set_ds using di by auto
    let ?f = "filter (\<lambda>(k, d). company d = c) (aggregated_data_db s)"
    have df: "distinct (map fst ?f)"
      using di by (rule distinct_map_filter)
    have "length ds = length (map fst ?f)" by (simp add: ds_def)
    also have "\<dots> = card (set (map fst ?f))"
      using df by (simp only: distinct_card)
    also have "set (map fst ?f) = {k. \<exists>d. map_of (aggregated_data_db s) k = Some d \<and> company d = c}"
      using di by (auto simp: image_iff)
    finally show "length ds = card {k. \<exists>d. map_of (aggregated_data_db s) k = Some d \<and> company d = c}" .
  qed
  show ?thesis
  proof (cases "c \<in> set COMPANIES")
    case False
    then show ?thesis by (simp add: get_aggregated_data_unknown_company)
  next
    case True
    show ?thesis
    proof (cases "ds = []")
      case True
      have g: "get_aggregated_data c s = Inr (NoData message_no_data [])"
        using \<open>c \<in> set COMPANIES\<close> True by (simp add: get_aggregated_data_def ds_def)
      have r: "response_data (NoData message_no_data []) = ds" using True by simp
      show ?thesis
        unfolding g using \<open>c \<in> set COMPANIES\<close> set_ds dist empty_iff True
        unfolding r ds_def[symmetric] by auto
    next
      case False
      have g: "get_aggregated_data c s = Inr (CompanyData c (length ds) ds)"
        using \<open>c \<in> set COMPANIES\<close> False by (simp add: get_aggregated_data_def ds_def Let_def)
      have r: "response_data (CompanyData c (length ds) ds) = ds" by simp
      show ?thesis
        unfolding g using \<open>c \<in> set COMPANIES\<close> set_ds dist empty_iff False
        unfolding r ds_def[symmetric] by auto
    qed
  qed
qed

text \<open>The theorem in the state that an active upsert of \<open>client_1\<close> for Retail Analytics
  Pro has left: an unknown company is rejected, the partner FinTech Insights gets the
  message and the empty list, and Retail Analytics Pro gets the three datasets.\<close>

theorem read_for_company_witness:
  "(let s0 = snd (manage_consent client_profiles_db
                \<lparr>req_client_id = ''client_1'', req_company = ''Retail Analytics Pro'',
                 data_types = [''average_bill''], is_active = True\<rparr> (''a'', ''b'', ''c'') empty_state)
    in length (aggregated_data_db s0) = 3
     \<and> get_aggregated_data ''Unknown Partner'' s0
        = Inl (HTTPException 400 detail_company_not_found)
     \<and> get_aggregated_data ''FinTech Insights'' s0 = Inr (NoData message_no_data [])
     \<and> get_aggregated_data ''Retail Analytics Pro'' s0
        = Inr (CompanyData ''Retail Analytics Pro'' 3 (map snd (aggregated_data_db s0))))"
proof -
  let ?r0 = "\<lparr>req_client_id = ''client_1'', req_company = ''Retail Analytics Pro'',
                 data_types = [''average_bill''], is_active = True\<rparr>"
  define s0 where "s0 = snd (manage_consent client_profiles_db ?r0 (''a'', ''b'', ''c'') empty_state)"
  obtain p where p: "map_of client_profiles_db ''client_1'' = Some p"
    by (simp add: client_profiles_db_def)
  have v0: "map_of client_profiles_db (req_client_id ?r0) \<noteq> None"
    "set (data_types ?r0) \<subseteq> set AVAILABLE_DATA_TYPES"
    by (simp_all add: p AVAILABLE_DATA_TYPES_def)
  from generate_from_empty[OF p, of "''Retail Analytics Pro''" "(''a'', ''b'', ''c'')"]
  obtain d1 d2 d3 where
    db: "aggregated_data_db s0 = [(''client_1_Retail Analytics Pro_categories'', d1),
      (''client_1_Retail Analytics Pro_average'', d2),
      (''client_1_Retail Analytics Pro_demographics'', d3)]"
    and co: "company d1 = ''Retail Analytics Pro''" "company d2 = ''Retail Analytics Pro''"
      "company d3 = ''Retail Analytics Pro''"
    unfolding s0_def manage_consent_valid[OF v0] by (auto simp: empty_state_def)
  have unknown: "''Unknown Partner'' \<notin> set COMPANIES"
    and known: "''FinTech Insights'' \<in> set COMPANIES" "''Retail Analytics Pro'' \<in> set COMPANIES"
    by (simp_all add: COMPANIES_def)
  have none: "\<forall>kd\<in>set (aggregated_data_db s0). company (snd kd) \<noteq> ''FinTech Insights''"
    by (simp add: db co)
  have some: "\<exists>kd\<in>set (aggregated_data_db s0). company (snd kd) = ''Retail Analytics Pro''"
    by (simp add: db co)
  have f: "map snd (filter (\<lambda>(k, d). company d = ''Retail Analytics Pro'') (aggregated_data_db s0))
      = map snd (aggregated_data_db s0)"
    by (simp add: db co)
  have a: "get_aggregated_data ''Unknown Partner'' s0
        = Inl (HTTPException 400 detail_company_not_found)"
    using read_for_company[of "''Unknown Partner''" s0] unknown by blast
  have b: "get_aggregated_data ''FinTech Insights'' s0 = Inr (NoData message_no_data [])"
    using read_for_company[of "''FinTech Insights''" s0] known(1) none by blast
  from read_for_company[of "''Retail Analytics Pro''" s0] known(2) some
  obtain resp where "get_aggregated_data ''Retail Analytics Pro'' s0 = Inr resp"
    and "response_data resp =
          map snd (filter (\<lambda>(k, d). company d = ''Retail Analytics Pro'') (aggregated_data_db s0))"
    and "resp = CompanyData ''Retail Analytics Pro'' (length (response_data resp)) (response_data resp)"
    by blast
  then have c: "get_aggregated_data ''Retail Analytics Pro'' s0
        = Inr (CompanyData ''Retail Analytics Pro'' 3 (map snd (aggregated_data_db s0)))"
    unfolding f by (simp add: db)
  show ?thesis
    unfolding Let_def s0_def[symmetric] using a b c by (simp add: db)
qed

subsection \<open>Two upserts of the same pair\<close>

text \<open>
  Claim C7. Let the state be one that the operations can produce: the keys of each table
  are distinct (the tables are dictionaries) and every grant is stored under the key
  \<^verbatim>\<open>f"{client_id}_{company}"\<close> of its own fields. (The lemmas \<open>reachable_invariant_empty\<close>,
  \<open>reachable_invariant_manage_consent\<close> and \<open>reachable_invariant_revoke_consent\<close> show
  that the operations keep this.) For a client of the profile table and
  two lists of permitted data types, two active upserts of the pair (client, company) in
  a row both succeed; after them exactly one grant has the client id and the company of
  the pair, and it is the request of the second upsert, with the second list of data
  types; the second upsert adds no grant and no dataset (the tables keep the number and
  the keys of their entries); and exactly three datasets are stored under the three keys
  of the pair.
\<close>

theorem upsert_twice_replaces:
  assumes "map_of profiles cid = Some p"
    and "set dts1 \<subseteq> set AVAILABLE_DATA_TYPES"
    and "set dts2 \<subseteq> set AVAILABLE_DATA_TYPES"
    and "distinct (map fst (consents_db s))"
    and "distinct (map fst (aggregated_data_db s))"
    and "\<forall>(k, v)\<in>set (consents_db s). k = req_client_id v @ ''_'' @ req_company v"
  shows "\<exists>resp1 s1 resp2 s2.
      manage_consent profiles
        \<lparr>req_client_id = cid, req_company = c, data_types = dts1, is_active = True\<rparr> now1 s
        = (Inr resp1, s1)
    \<and> manage_consent profiles
        \<lparr>req_client_id = cid, req_company = c, data_types = dts2, is_active = True\<rparr> now2 s1
        = (Inr resp2, s2)
    \<and> filter (\<lambda>(k, v). req_client_id v = cid \<and> req_company v = c) (consents_db s2) =
        [(cid @ ''_'' @ c,
          \<lparr>req_client_id = cid, req_company = c, data_types = dts2, is_active = True\<rparr>)]
    \<and> length (consents_db s2) = length (consents_db s1)
    \<and> distinct (map fst (aggregated_data_db s2))
    \<and> map fst (aggregated_data_db s2) = map fst (aggregated_data_db s1)
    \<and> length (filter (\<lambda>(k, d). k \<in> {cid @ ''_'' @ c @ ''_categories'',
          cid @ ''_'' @ c @ ''_average'', cid @ ''_'' @ c @ ''_demographics''})
        (aggregated_data_db s2)) = 3"
proof -
  let ?r1 = "\<lparr>req_client_id = cid, req_company = c, data_types = dts1, is_active = True\<rparr>"
  let ?r2 = "\<lparr>req_client_id = cid, req_company = c, data_types = dts2, is_active = True\<rparr>"
  let ?key = "cid @ ''_'' @ c"
  let ?K = "{cid @ ''_'' @ c @ ''_categories'', cid @ ''_'' @ c @ ''_average'',
          cid @ ''_'' @ c @ ''_demographics''}"
  define db1 where "db1 = snd (generate_aggregated_data profiles cid c now1 (aggregated_data_db s))"
  define db2 where "db2 = snd (generate_aggregated_data profiles cid c now2 db1)"
  define s1 where "s1 = \<lparr>consents_db = AList.update ?key ?r1 (consents_db s),
                         aggregated_data_db = db1\<rparr>"
  define s2 where "s2 = \<lparr>consents_db = AList.update ?key ?r2 (consents_db s),
                         aggregated_data_db = db2\<rparr>"
  have v1: "map_of profiles (req_client_id ?r1) \<noteq> None"
    "set (data_types ?r1) \<subseteq> set AVAILABLE_DATA_TYPES"
    using assms(1,2) by simp_all
  have v2: "map_of profiles (req_client_id ?r2) \<noteq> None"
    "set (data_types ?r2) \<subseteq> set AVAILABLE_DATA_TYPES"
    using assms(1,3) by simp_all
  have m1: "manage_consent profiles ?r1 now1 s =
      (Inr \<lparr>message = message_consent_updated, consent_id = ?key, consent = ?r1\<rparr>, s1)"
    unfolding manage_consent_valid[OF v1] by (simp add: s1_def db1_def)
  have m2: "manage_consent profiles ?r2 now2 s1 =
      (Inr \<lparr>message = message_consent_updated, consent_id = ?key, consent = ?r2\<rparr>, s2)"
    unfolding manage_consent_valid[OF v2] by (simp add: s1_def s2_def db2_def)
  have grant: "filter (\<lambda>(k, v). req_client_id v = cid \<and> req_company v = c) (consents_db s2) =
        [(?key, ?r2)]"
  proof -
    have "\<forall>(k, v)\<in>set (consents_db s). (req_client_id v = cid \<and> req_company v = c) \<longrightarrow> k = ?key"
      using assms(6) by auto
    from filter_update_unique[where P = "\<lambda>v. req_client_id v = cid \<and> req_company v = c",
        OF assms(4) this, of ?r2]
    show ?thesis by (simp add: s2_def)
  qed
  have len: "length (consents_db s2) = length (consents_db s1)"
  proof -
    have "map fst (consents_db s2) = map fst (consents_db s1)"
      by (simp add: s1_def s2_def update_keys)
    from arg_cong[OF this, of length] show ?thesis by simp
  qed
  have d1: "distinct (map fst db1)"
    unfolding db1_def using assms(5) by (rule generate_aggregated_data_keys(2)[OF assms(1)])
  have d2: "distinct (map fst db2)"
    unfolding db2_def using d1 by (rule generate_aggregated_data_keys(2)[OF assms(1)])
  have k1: "?K \<subseteq> fst ` set db1"
    unfolding db1_def by (rule generate_aggregated_data_keys(1)[OF assms(1)])
  have same: "map fst db2 = map fst db1"
    unfolding db2_def using k1 by (rule generate_aggregated_data_keys(3)[OF assms(1)])
  have k2: "?K \<subseteq> fst ` set db2"
    unfolding db2_def by (rule generate_aggregated_data_keys(1)[OF assms(1)])
  have "card ?K = 3" by simp
  moreover have "?K \<inter> fst ` set db2 = ?K" using k2 by blast
  ultimately have three: "length (filter (\<lambda>(k, d). k \<in> ?K) db2) = 3"
    using length_filter_keys[OF d2, of ?K] by simp
  have "manage_consent profiles ?r1 now1 s
        = (Inr \<lparr>message = message_consent_updated, consent_id = ?key, consent = ?r1\<rparr>, s1)
    \<and> manage_consent profiles ?r2 now2 s1
        = (Inr \<lparr>message = message_consent_updated, consent_id = ?key, consent = ?r2\<rparr>, s2)
    \<and> filter (\<lambda>(k, v). req_client_id v = cid \<and> req_company v = c) (consents_db s2) =
        [(?key, ?r2)]
    \<and> length (consents_db s2) = length (consents_db s1)
    \<and> distinct (map fst (aggregated_data_db s2))
    \<and> map fst (aggregated_data_db s2) = map fst (aggregated_data_db s1)
    \<and> length (filter (\<lambda>(k, d). k \<in> ?K) (aggregated_data_db s2)) = 3"
    using m1 m2 grant len d2 same three by (simp add: s1_def s2_def)
  then show ?thesis by blast
qed

text \<open>The theorem at \<open>client_1\<close> and the partner Consumer Trends Lab, in the state
  that an active upsert of \<open>client_2\<close> for the same partner has left: two grants and six
  datasets in all, one grant and three datasets for the pair of \<open>client_1\<close>.\<close>

theorem upsert_twice_replaces_witness:
  "(let s0 = snd (manage_consent client_profiles_db
                \<lparr>req_client_id = ''client_2'', req_company = ''Consumer Trends Lab'',
                 data_types = [''geography''], is_active = True\<rparr> (''a'', ''b'', ''c'') empty_state);
        s1 = snd (manage_consent client_profiles_db
                \<lparr>req_client_id = ''client_1'', req_company = ''Consumer Trends Lab'',
                 data_types = [''category_spending'', ''geography''], is_active = True\<rparr>
                (''d'', ''e'', ''f'') s0);
        s2 = snd (manage_consent client_profiles_db
                \<lparr>req_client_id = ''client_1'', req_company = ''Consumer Trends Lab'',
                 data_types = [''average_bill''], is_active = True\<rparr>
                (''g'', ''h'', ''i'') s1)
    in map fst (consents_db s0) = [''client_2_Consumer Trends Lab'']
     \<and> length (aggregated_data_db s0) = 3
     \<and> length (consents_db s2) = 2
     \<and> filter (\<lambda>(k, v). req_client_id v = ''client_1'' \<and> req_company v = ''Consumer Trends Lab'')
          (consents_db s2) =
        [(''client_1_Consumer Trends Lab'',
          \<lparr>req_client_id = ''client_1'', req_company = ''Consumer Trends Lab'',
           data_types = [''average_bill''], is_active = True\<rparr>)]
     \<and> length (aggregated_data_db s2) = 6
     \<and> length (filter (\<lambda>(k, d). k \<in> {''client_1_Consumer Trends Lab_categories'',
            ''client_1_Consumer Trends Lab_average'', ''client_1_Consumer Trends Lab_demographics''})
          (aggregated_data_db s2)) = 3)"
proof -
  let ?r0 = "\<lparr>req_client_id = ''client_2'', req_company = ''Consumer Trends Lab'',
                 data_types = [''geography''], is_active = True\<rparr>"
  let ?r1 = "\<lparr>req_client_id = ''client_1'', req_company = ''Consumer Trends Lab'',
                 data_types = [''category_spending'', ''geography''], is_active = True\<rparr>"
  let ?r2 = "\<lparr>req_client_id = ''client_1'', req_company = ''Consumer Trends Lab'',
                 data_types = [''average_bill''], is_active = True\<rparr>"
  define s0 where "s0 = snd (manage_consent client_profiles_db ?r0 (''a'', ''b'', ''c'') empty_state)"
  define s1 where "s1 = snd (manage_consent client_profiles_db ?r1 (''d'', ''e'', ''f'') s0)"
  define s2 where "s2 = snd (manage_consent client_profiles_db ?r2 (''g'', ''h'', ''i'') s1)"
  obtain p2 where p2: "map_of client_profiles_db ''client_2'' = Some p2"
    by (simp add: client_profiles_db_def)
  obtain p1 where p1: "map_of client_profiles_db ''client_1'' = Some p1"
    by (simp add: client_profiles_db_def)
  have v0: "map_of client_profiles_db (req_client_id ?r0) \<noteq> None"
    "set (data_types ?r0) \<subseteq> set AVAILABLE_DATA_TYPES"
    by (simp_all add: p2 AVAILABLE_DATA_TYPES_def)
  have v1: "map_of client_profiles_db (req_client_id ?r1) \<noteq> None"
    "set (data_types ?r1) \<subseteq> set AVAILABLE_DATA_TYPES"
    by (simp_all add: p1 AVAILABLE_DATA_TYPES_def)
  have dts1: "set [''category_spending'', ''geography''] \<subseteq> set AVAILABLE_DATA_TYPES"
    and dts2: "set [''average_bill''] \<subseteq> set AVAILABLE_DATA_TYPES"
    by (simp_all add: AVAILABLE_DATA_TYPES_def)
  from generate_from_empty[OF p2, of "''Consumer Trends Lab''" "(''a'', ''b'', ''c'')"]
  obtain e1 e2 e3 where
    "snd (generate_aggregated_data client_profiles_db ''client_2'' ''Consumer Trends Lab''
        (''a'', ''b'', ''c'') []) =
     [(''client_2_Consumer Trends Lab_categories'', e1),
      (''client_2_Consumer Trends Lab_average'', e2),
      (''client_2_Consumer Trends Lab_demographics'', e3)]"
    by auto
  then have s0: "s0 = \<lparr>consents_db = [(''client_2_Consumer Trends Lab'', ?r0)],
      aggregated_data_db = [(''client_2_Consumer Trends Lab_categories'', e1),
      (''client_2_Consumer Trends Lab_average'', e2),
      (''client_2_Consumer Trends Lab_demographics'', e3)]\<rparr>"
    unfolding s0_def manage_consent_valid[OF v0] by (simp add: empty_state_def)
  have h4: "distinct (map fst (consents_db s0))" by (simp add: s0)
  have h5: "distinct (map fst (aggregated_data_db s0))" by (simp add: s0)
  have h6: "\<forall>(k, v)\<in>set (consents_db s0). k = req_client_id v @ ''_'' @ req_company v"
    by (simp add: s0)
  from generate_aggregated_data_stores[OF p1, of "''Consumer Trends Lab''" "(''d'', ''e'', ''f'')"
      "aggregated_data_db s0"]
  have len1: "length (aggregated_data_db s1) = 6"
    unfolding s1_def manage_consent_valid[OF v1] by (auto simp: s0)
  have lenc1: "length (consents_db s1) = 2"
    unfolding s1_def manage_consent_valid[OF v1] by (simp add: s0)
  from upsert_twice_replaces[OF p1 dts1 dts2 h4 h5 h6, of "''Consumer Trends Lab''"
      "(''d'', ''e'', ''f'')" "(''g'', ''h'', ''i'')"]
  have "filter (\<lambda>(k, v). req_client_id v = ''client_1'' \<and> req_company v = ''Consumer Trends Lab'')
          (consents_db s2) = [(''client_1_Consumer Trends Lab'', ?r2)]
     \<and> length (consents_db s2) = length (consents_db s1)
     \<and> map fst (aggregated_data_db s2) = map fst (aggregated_data_db s1)
     \<and> length (filter (\<lambda>(k, d). k \<in> {''client_1_Consumer Trends Lab_categories'',
            ''client_1_Consumer Trends Lab_average'', ''client_1_Consumer Trends Lab_demographics''})
          (aggregated_data_db s2)) = 3"
    unfolding s1_def s2_def by (elim exE conjE) simp
  moreover from this have "length (aggregated_data_db s2) = length (aggregated_data_db s1)"
    using map_eq_imp_length_eq by blast
  ultimately have "map fst (consents_db s0) = [''client_2_Consumer Trends Lab'']
     \<and> length (aggregated_data_db s0) = 3
     \<and> length (consents_db s2) = 2
     \<and> filter (\<lambda>(k, v). req_client_id v = ''client_1'' \<and> req_company v = ''Consumer Trends Lab'')
          (consents_db s2) = [(''client_1_Consumer Trends Lab'', ?r2)]
     \<and> length (aggregated_data_db s2) = 6
     \<and> length (filter (\<lambda>(k, d). k \<in> {''client_1_Consumer Trends Lab_categories'',
            ''client_1_Consumer Trends Lab_average'', ''client_1_Consumer Trends Lab_demographics''})
          (aggregated_data_db s2)) = 3"
    using len1 lenc1 by (simp add: s0)
  then show ?thesis
    unfolding Let_def s0_def s1_def s2_def .
qed

subsection \<open>An inactive upsert\<close>

text \<open>
  Claim C8. For a client of the profile table and data types of the permitted set, the
  upsert of a consent with \<^verbatim>\<open>is_active = false\<close> succeeds from every state and stores the
  grant under the key of the pair, and the aggregate table after it is the aggregate
  table before it: nothing is generated and nothing is removed.
\<close>

theorem inactive_upsert_keeps_aggregates:
  assumes "map_of profiles (req_client_id r) \<noteq> None"
    and "set (data_types r) \<subseteq> set AVAILABLE_DATA_TYPES"
    and "\<not> is_active r"
  shows "\<exists>resp s'. manage_consent profiles r now s = (Inr resp, s')
    \<and> map_of (consents_db s') (req_client_id r @ ''_'' @ req_company r) = Some r
    \<and> aggregated_data_db s' = aggregated_data_db s"
  unfolding manage_consent_valid[OF assms(1,2)] using assms(3)
  by (simp add: update_conv')

text \<open>The theorem at \<open>client_3\<close> and the partner Market Research Co, in the state
  that an active upsert of the same pair has left: the three datasets of the pair are
  still there after the inactive upsert.\<close>

theorem inactive_upsert_keeps_aggregates_witness:
  "map fst (aggregated_data_db (snd (manage_consent client_profiles_db
       \<lparr>req_client_id = ''client_3'', req_company = ''Market Research Co'',
        data_types = [''geography''], is_active = True\<rparr> (''a'', ''b'', ''c'') empty_state))) =
     [''client_3_Market Research Co_categories'', ''client_3_Market Research Co_average'',
      ''client_3_Market Research Co_demographics'']
   \<and> fst (manage_consent client_profiles_db
       \<lparr>req_client_id = ''client_3'', req_company = ''Market Research Co'',
        data_types = [], is_active = False\<rparr> (''d'', ''e'', ''f'')
       (snd (manage_consent client_profiles_db
          \<lparr>req_client_id = ''client_3'', req_company = ''Market Research Co'',
           data_types = [''geography''], is_active = True\<rparr> (''a'', ''b'', ''c'') empty_state))) =
     Inr \<lparr>message = message_consent_updated, consent_id = ''client_3_Market Research Co'',
          consent = \<lparr>req_client_id = ''client_3'', req_company = ''Market Research Co'',
                     data_types = [], is_active = False\<rparr>\<rparr>
   \<and> aggregated_data_db (snd (manage_consent client_profiles_db
       \<lparr>req_client_id = ''client_3'', req_company = ''Market Research Co'',
        data_types = [], is_active = False\<rparr> (''d'', ''e'', ''f'')
       (snd (manage_consent client_profiles_db
          \<lparr>req_client_id = ''client_3'', req_company = ''Market Research Co'',
           data_types = [''geography''], is_active = True\<rparr> (''a'', ''b'', ''c'') empty_state)))) =
     aggregated_data_db (snd (manage_consent client_profiles_db
          \<lparr>req_client_id = ''client_3'', req_company = ''Market Research Co'',
           data_types = [''geography''], is_active = True\<rparr> (''a'', ''b'', ''c'') empty_state))"
proof -
  let ?r1 = "\<lparr>req_client_id = ''client_3'', req_company = ''Market Research Co'',
           data_types = [''geography''], is_active = True\<rparr>"
  let ?r2 = "\<lparr>req_client_id = ''client_3'', req_company = ''Market Research Co'',
        data_types = [], is_active = False\<rparr>"
  define s1 where "s1 = snd (manage_consent client_profiles_db ?r1 (''a'', ''b'', ''c'') empty_state)"
  obtain p where p: "map_of client_profiles_db ''client_3'' = Some p"
    by (simp add: client_profiles_db_def)
  have v1: "map_of client_profiles_db (req_client_id ?r1) \<noteq> None"
    "set (data_types ?r1) \<subseteq> set AVAILABLE_DATA_TYPES"
    by (simp_all add: p AVAILABLE_DATA_TYPES_def)
  have v2: "map_of client_profiles_db (req_client_id ?r2) \<noteq> None"
    "set (data_types ?r2) \<subseteq> set AVAILABLE_DATA_TYPES" "\<not> is_active ?r2"
    by (simp_all add: p)
  from generate_from_empty[OF p, of "''Market Research Co''" "(''a'', ''b'', ''c'')"]
  have keys: "map fst (aggregated_data_db s1) =
     [''client_3_Market Research Co_categories'', ''client_3_Market Research Co_average'',
      ''client_3_Market Research Co_demographics'']"
    unfolding s1_def manage_consent_valid[OF v1] by (auto simp: empty_state_def)
  from inactive_upsert_keeps_aggregates[OF v2, of "(''d'', ''e'', ''f'')" s1]
  have "aggregated_data_db (snd (manage_consent client_profiles_db ?r2 (''d'', ''e'', ''f'') s1))
        = aggregated_data_db s1"
    by auto
  moreover have "fst (manage_consent client_profiles_db ?r2 (''d'', ''e'', ''f'') s1) =
     Inr \<lparr>message = message_consent_updated, consent_id = ''client_3_Market Research Co'',
          consent = ?r2\<rparr>"
    unfolding manage_consent_valid[OF v2(1,2)] by simp
  ultimately show ?thesis using keys unfolding s1_def by simp
qed

subsection \<open>The built-in client \<open>client_1\<close>\<close>

text \<open>
  Claim C9. The built-in client \<open>client_1\<close> has the transaction amounts
  \<open>[2500, 5000, 12000, 3500, 8000]\<close> in five distinct categories. For every company, every
  time stamps and every aggregate table, the aggregation for this client succeeds; the
  dataset it stores under the key of the average bill reports the average 6200, the
  minimum 2500, the maximum 12000, the count 5 and the total 31000; the dataset it stores
  under the key of the category spend reports 5 distinct categories and the total 31000.
\<close>

theorem client_1_aggregates:
  "(case map_of client_profiles_db ''client_1'' of
      None \<Rightarrow> False
    | Some p \<Rightarrow> map amount (transactions p) = [2500, 5000, 12000, 3500, 8000]
               \<and> distinct (map category (transactions p)))
   \<and> fst (generate_aggregated_data client_profiles_db ''client_1'' c now db) = Inr ()
   \<and> (case map_of (snd (generate_aggregated_data client_profiles_db ''client_1'' c now db))
              (''client_1'' @ ''_'' @ c @ ''_average'') of
        None \<Rightarrow> False
      | Some d \<Rightarrow> metrics d = AverageMetrics 6200 2500 12000 5 31000)
   \<and> (case map_of (snd (generate_aggregated_data client_profiles_db ''client_1'' c now db))
              (''client_1'' @ ''_'' @ c @ ''_categories'') of
        None \<Rightarrow> False
      | Some d \<Rightarrow> m_total_categories (metrics d) = 5 \<and> m_total_spent (metrics d) = 31000)"
proof -
  obtain p where p: "map_of client_profiles_db ''client_1'' = Some p"
    and am: "map amount (transactions p) = [2500, 5000, 12000, 3500, 8000]"
    and di: "distinct (map category (transactions p))"
    using client_1_profile by (elim exE conjE)
  have ne: "transactions p \<noteq> []" using am by auto
  have tot: "total_amount (transactions p) = 31000"
    by (simp add: total_amount_sum_list am)
  have len: "length (transactions p) = 5"
    using arg_cong[OF am, of length] by simp
  have set_am: "amount ` set (transactions p) = {2500, 5000, 12000, 3500, 8000}"
    using arg_cong[OF am, of set] by simp
  have lo: "min_amount (transactions p) = Inr 2500"
    by (simp add: min_amount_Inr ne set_am)
  have hi: "max_amount (transactions p) = Inr 12000"
    by (simp add: max_amount_Inr ne set_am)
  have avg: "py_round2 6200 = 6200"
    by (simp add: py_round2_def round_half_even_def)
  have cats: "length (category_spending (transactions p)) = 5"
    using distinct_card[OF di] len by (simp add: length_category_spending)
  from generate_aggregated_data_known[OF p, of c now db] lo hi
  show ?thesis
    by (auto simp: p am di update_conv' ne tot len avg cats)
qed

subsection \<open>The upsert does not check the company\<close>

text \<open>
  Claim C10. \<^verbatim>\<open>manage_consent\<close> never checks the company against the partner list: for
  a client of the profile table, data types of the permitted set and a company outside
  \<^verbatim>\<open>COMPANIES\<close>, the upsert succeeds from every state; when the consent is active, the
  aggregate table then holds the three datasets of the pair, each with that company in its
  \<^verbatim>\<open>company\<close> field. The read for that company raises the 400 of an unknown company in
  every state, and no successful read, for whatever company, returns a dataset whose
  \<^verbatim>\<open>company\<close> field is that company.
\<close>

theorem upsert_ignores_partner_list:
  assumes "map_of profiles (req_client_id r) = Some p"
    and "set (data_types r) \<subseteq> set AVAILABLE_DATA_TYPES"
    and "req_company r \<notin> set COMPANIES"
  shows "\<exists>resp s'. manage_consent profiles r now s = (Inr resp, s')
    \<and> (is_active r \<longrightarrow>
         (\<exists>d1 d2 d3.
             map_of (aggregated_data_db s')
               (req_client_id r @ ''_'' @ req_company r @ ''_categories'') = Some d1
           \<and> map_of (aggregated_data_db s')
               (req_client_id r @ ''_'' @ req_company r @ ''_average'') = Some d2
           \<and> map_of (aggregated_data_db s')
               (req_client_id r @ ''_'' @ req_company r @ ''_demographics'') = Some d3
           \<and> company d1 = req_company r \<and> company d2 = req_company r
           \<and> company d3 = req_company r))
    \<and> (\<forall>t. get_aggregated_data (req_company r) t =
              Inl (HTTPException 400 detail_company_not_found))
    \<and> (\<forall>c' t resp' d. get_aggregated_data c' t = Inr resp' \<longrightarrow> d \<in> set (response_data resp')
          \<longrightarrow> company d \<noteq> req_company r)"
proof -
  have v: "map_of profiles (req_client_id r) \<noteq> None" using assms(1) by simp
  note m = manage_consent_valid[OF v assms(2), of now s]
  have stored: "is_active r \<longrightarrow>
         (\<exists>d1 d2 d3.
             map_of (aggregated_data_db (snd (manage_consent profiles r now s)))
               (req_client_id r @ ''_'' @ req_company r @ ''_categories'') = Some d1
           \<and> map_of (aggregated_data_db (snd (manage_consent profiles r now s)))
               (req_client_id r @ ''_'' @ req_company r @ ''_average'') = Some d2
           \<and> map_of (aggregated_data_db (snd (manage_consent profiles r now s)))
               (req_client_id r @ ''_'' @ req_company r @ ''_demographics'') = Some d3
           \<and> company d1 = req_company r \<and> company d2 = req_company r
           \<and> company d3 = req_company r)"
  proof
    assume a: "is_active r"
    from generate_aggregated_data_lookup[OF assms(1), of "req_company r" now "aggregated_data_db s"]
    show "\<exists>d1 d2 d3.
             map_of (aggregated_data_db (snd (manage_consent profiles r now s)))
               (req_client_id r @ ''_'' @ req_company r @ ''_categories'') = Some d1
           \<and> map_of (aggregated_data_db (snd (manage_consent profiles r now s)))
               (req_client_id r @ ''_'' @ req_company r @ ''_average'') = Some d2
           \<and> map_of (aggregated_data_db (snd (manage_consent profiles r now s)))
               (req_client_id r @ ''_'' @ req_company r @ ''_demographics'') = Some d3
           \<and> company d1 = req_company r \<and> company d2 = req_company r
           \<and> company d3 = req_company r"
      unfolding m using a by auto
  qed
  have reject: "\<forall>t. get_aggregated_data (req_company r) t =
              Inl (HTTPException 400 detail_company_not_found)"
    using assms(3) by (simp add: get_aggregated_data_unknown_company)
  have never: "\<forall>c' t resp' d. get_aggregated_data c' t = Inr resp' \<longrightarrow> d \<in> set (response_data resp')
          \<longrightarrow> company d \<noteq> req_company r"
  proof (intro allI impI)
    fix c' t resp' d
    assume g: "get_aggregated_data c' t = Inr resp'" and d: "d \<in> set (response_data resp')"
    from get_aggregated_data_Inr[OF g] d have "c' \<in> set COMPANIES" "company d = c'" by auto
    with assms(3) show "company d \<noteq> req_company r" by auto
  qed
  have "manage_consent profiles r now s =
      (fst (manage_consent profiles r now s), snd (manage_consent profiles r now s))" by simp
  moreover have "\<exists>resp. fst (manage_consent profiles r now s) = Inr resp"
    unfolding m by simp
  ultimately show ?thesis using stored reject never by metis
qed

text \<open>The theorem at \<open>client_3\<close> and the company Shadow Broker Ltd, from the empty
  tables: the upsert succeeds, three datasets of that company are stored, and the read
  for it is rejected.\<close>

theorem upsert_ignores_partner_list_witness:
  "map_of client_profiles_db ''client_3'' \<noteq> None
   \<and> ''Shadow Broker Ltd'' \<notin> set COMPANIES
   \<and> fst (manage_consent client_profiles_db
        \<lparr>req_client_id = ''client_3'', req_company = ''Shadow Broker Ltd'',
         data_types = [''average_bill''], is_active = True\<rparr> (''a'', ''b'', ''c'') empty_state)
      = Inr \<lparr>message = message_consent_updated, consent_id = ''client_3_Shadow Broker Ltd'',
             consent = \<lparr>req_client_id = ''client_3'', req_company = ''Shadow Broker Ltd'',
                        data_types = [''average_bill''], is_active = True\<rparr>\<rparr>
   \<and> map (company \<circ> snd) (aggregated_data_db (snd (manage_consent client_profiles_db
        \<lparr>req_client_id = ''client_3'', req_company = ''Shadow Broker Ltd'',
         data_types = [''average_bill''], is_active = True\<rparr> (''a'', ''b'', ''c'') empty_state)))
      = [''Shadow Broker Ltd'', ''Shadow Broker Ltd'', ''Shadow Broker Ltd'']
   \<and> get_aggregated_data ''Shadow Broker Ltd'' (snd (manage_consent client_profiles_db
        \<lparr>req_client_id = ''client_3'', req_company = ''Shadow Broker Ltd'',
         data_types = [''average_bill''], is_active = True\<rparr> (''a'', ''b'', ''c'') empty_state))
      = Inl (HTTPException 400 detail_company_not_found)"
proof -
  let ?r = "\<lparr>req_client_id = ''client_3'', req_company = ''Shadow Broker Ltd'',
         data_types = [''average_bill''], is_active = True\<rparr>"
  obtain p where p: "map_of client_profiles_db (req_client_id ?r) = Some p"
    by (simp add: client_profiles_db_def)
  have p': "map_of client_profiles_db ''client_3'' = Some p" using p by simp
  have v: "map_of client_profiles_db (req_client_id ?r) \<noteq> None" using p by simp
  have dts: "set (data_types ?r) \<subseteq> set AVAILABLE_DATA_TYPES"
    by (simp add: AVAILABLE_DATA_TYPES_def)
  have c: "req_company ?r \<notin> set COMPANIES" by (simp add: COMPANIES_def)
  from generate_from_empty[OF p', of "''Shadow Broker Ltd''" "(''a'', ''b'', ''c'')"]
  have comps: "map (company \<circ> snd) (aggregated_data_db (snd (manage_consent client_profiles_db ?r
      (''a'', ''b'', ''c'') empty_state))) =
      [''Shadow Broker Ltd'', ''Shadow Broker Ltd'', ''Shadow Broker Ltd'']"
    unfolding manage_consent_valid[OF v dts] by (auto simp: empty_state_def)
  from upsert_ignores_partner_list[OF p dts c, of "(''a'', ''b'', ''c'')" empty_state]
  have "get_aggregated_data ''Shadow Broker Ltd'' (snd (manage_consent client_profiles_db ?r
      (''a'', ''b'', ''c'') empty_state)) = Inl (HTTPException 400 detail_company_not_found)"
    by (elim exE conjE) simp
  then show ?thesis
    using comps c v unfolding manage_consent_valid[OF v dts] by simp
qed

end
